theory Spec2Isabelle
  imports Main "HOL-Library.Sublist"
begin

section \<open>Strings and thrown values\<close>

text \<open>
  A JavaScript string is a sequence of UTF-16 code units. It is modelled as a \<open>string\<close>,
  a list of the 256 characters of HOL: the model covers the strings all of whose code
  units are below 256 (ASCII and the Latin-1 supplement), one character per code unit,
  and the library functions below are the JavaScript ones on these strings. A value
  that may be \<^verbatim>\<open>undefined\<close> is an \<open>option\<close>. A \<^verbatim>\<open>throw\<close> is the left summand
  of a sum: \<open>StatusError c m\<close> is the thrown object \<^verbatim>\<open>{ statusCode: c, message: m }\<close>,
  \<open>TypeError\<close> and \<open>RangeError\<close> are the exceptions of the language itself.
\<close>

datatype error = StatusError nat string | TypeError | RangeError

text \<open>\<^verbatim>\<open>s.startsWith(p)\<close>, \<^verbatim>\<open>s.endsWith(p)\<close>.\<close>

definition startsWith :: "string \<Rightarrow> string \<Rightarrow> bool" where
  "startsWith s p = prefix p s"

definition endsWith :: "string \<Rightarrow> string \<Rightarrow> bool" where
  "endsWith s p = suffix p s"

text \<open>\<^verbatim>\<open>s.indexOf(p)\<close>, with \<open>None\<close> for -1.\<close>

fun index_of :: "string \<Rightarrow> string \<Rightarrow> nat option" where
  "index_of [] p = (if p = [] then Some 0 else None)"
| "index_of (c # cs) p =
     (if prefix p (c # cs) then Some 0 else map_option Suc (index_of cs p))"

definition includes_str :: "string \<Rightarrow> string \<Rightarrow> bool" where
  "includes_str s p = (index_of s p \<noteq> None)"

text \<open>\<^verbatim>\<open>s.replace(p, r)\<close> with a string pattern: only the first occurrence is replaced.\<close>

definition replace_first :: "string \<Rightarrow> string \<Rightarrow> string \<Rightarrow> string" where
  "replace_first s p r =
     (case index_of s p of
        None \<Rightarrow> s
      | Some i \<Rightarrow> take i s @ r @ drop (i + length p) s)"

text \<open>\<^verbatim>\<open>s.split(sep)\<close> for a separator that is not empty.\<close>

function split_go :: "string \<Rightarrow> string \<Rightarrow> string \<Rightarrow> string list" where
  "split_go sep cur [] = [rev cur]"
| "split_go sep cur (c # cs) =
     (if prefix sep (c # cs) then rev cur # split_go sep [] (drop (length sep - 1) cs)
      else split_go sep (c # cur) cs)"
  by pat_completeness auto
termination
  by (relation "measure (\<lambda>(sep, cur, s). length s)") auto

definition split :: "string \<Rightarrow> string \<Rightarrow> string list" where
  "split s sep = (if sep = [] then map (\<lambda>c. [c]) s else split_go sep [] s)"

text \<open>
  Letters and digits. Among the code units below 256 the letters with two cases are the
  ASCII letters and the Latin-1 letters \<^verbatim>\<open>U+00C0\<close> to \<^verbatim>\<open>U+00DE\<close> (capital) and
  \<^verbatim>\<open>U+00E0\<close> to \<^verbatim>\<open>U+00FE\<close> (small), without the signs \<^verbatim>\<open>U+00D7\<close> and
  \<^verbatim>\<open>U+00F7\<close>; a capital and its small letter are 32 apart.
\<close>

definition lower_letters :: string where
  "lower_letters = ''abcdefghijklmnopqrstuvwxyz''"

definition upper_letters :: string where
  "upper_letters = ''ABCDEFGHIJKLMNOPQRSTUVWXYZ''"

definition digits :: string where
  "digits = ''0123456789''"

definition latin1_upper :: string where
  "latin1_upper = [
      CHR 0xC0, CHR 0xC1, CHR 0xC2, CHR 0xC3, CHR 0xC4, CHR 0xC5, CHR 0xC6, CHR 0xC7,
      CHR 0xC8, CHR 0xC9, CHR 0xCA, CHR 0xCB, CHR 0xCC, CHR 0xCD, CHR 0xCE, CHR 0xCF,
      CHR 0xD0, CHR 0xD1, CHR 0xD2, CHR 0xD3, CHR 0xD4, CHR 0xD5, CHR 0xD6, CHR 0xD8,
      CHR 0xD9, CHR 0xDA, CHR 0xDB, CHR 0xDC, CHR 0xDD, CHR 0xDE]"

definition latin1_lower :: string where
  "latin1_lower = [
      CHR 0xE0, CHR 0xE1, CHR 0xE2, CHR 0xE3, CHR 0xE4, CHR 0xE5, CHR 0xE6, CHR 0xE7,
      CHR 0xE8, CHR 0xE9, CHR 0xEA, CHR 0xEB, CHR 0xEC, CHR 0xED, CHR 0xEE, CHR 0xEF,
      CHR 0xF0, CHR 0xF1, CHR 0xF2, CHR 0xF3, CHR 0xF4, CHR 0xF5, CHR 0xF6, CHR 0xF8,
      CHR 0xF9, CHR 0xFA, CHR 0xFB, CHR 0xFC, CHR 0xFD, CHR 0xFE]"

text \<open>
  \<^verbatim>\<open>s.toLowerCase()\<close> maps every capital letter to its small letter and leaves the
  other characters as they are. The bit \<open>digit7\<close> of a character says that its code
  unit is 128 or more.
\<close>

definition lower_char :: "char \<Rightarrow> char" where
  "lower_char c =
     (case (if digit7 c then map_of (zip latin1_upper latin1_lower) c
            else map_of (zip upper_letters lower_letters) c) of
        Some l \<Rightarrow> l
      | None \<Rightarrow> c)"

definition toLowerCase :: "string \<Rightarrow> string" where
  "toLowerCase s = map lower_char s"

text \<open>
  The canonical form under which a pattern with the flag \<^verbatim>\<open>i\<close> compares two
  characters: the upper-case form when it is a single code unit, and never an ASCII
  character for a character that is not ASCII. A small letter goes to its capital. The
  characters \<^verbatim>\<open>U+00B5\<close> and \<^verbatim>\<open>U+00FF\<close> have a canonical form above 255, which
  is the canonical form of no other character below 256, and \<^verbatim>\<open>U+00DF\<close> is its
  own canonical form; so two characters of the model have the same canonical form in
  JavaScript exactly when \<open>canonicalize\<close> gives the same character for both.
\<close>

definition canonicalize :: "char \<Rightarrow> char" where
  "canonicalize c =
     (case (if digit7 c then map_of (zip latin1_lower latin1_upper) c
            else map_of (zip lower_letters upper_letters) c) of
        Some u \<Rightarrow> u
      | None \<Rightarrow> c)"

section \<open>Regular expressions\<close>

text \<open>
  The program classifies texts with JavaScript regular expressions. They are modelled by
  a backtracking matcher that returns, for a pattern and a position in the text, every
  way the pattern can match there, in the order in which a backtracking engine tries
  them: the first element of the list is the match that JavaScript reports. A state of
  the matcher is the number of characters consumed, the rest of the text and the capture
  groups set so far (the most recent first).

  The constructors are the pattern operators that occur in the program: a literal text,
  \<^verbatim>\<open>.\<close>, a character class and its negation, \<^verbatim>\<open>^\<close> and \<^verbatim>\<open>$\<close>,
  sequence, alternation, the greedy and the lazy star, \<^verbatim>\<open>?\<close>, and a numbered
  capture group. The flag \<open>ci\<close> is the \<^verbatim>\<open>i\<close> flag. As in JavaScript, an
  iteration of a star or of \<^verbatim>\<open>?\<close> that consumes nothing is not taken. No pattern
  of the program has a capture group under a star, so the reset of the captures at each
  iteration is not modelled.
\<close>

datatype regex =
    Lit string
  | AnyCh
  | OneOf string
  | NoneOf string
  | Bol
  | Eol
  | Seq regex regex
  | Alt regex regex
  | Star regex
  | StarLazy regex
  | Opt regex
  | Grp nat regex

type_synonym captures = "(nat \<times> string) list"

type_synonym mstate = "nat \<times> string \<times> captures"

definition ceq :: "bool \<Rightarrow> char \<Rightarrow> char \<Rightarrow> bool" where
  "ceq ci a b = (if ci then canonicalize a = canonicalize b else a = b)"

fun lit_match :: "bool \<Rightarrow> string \<Rightarrow> string \<Rightarrow> string option" where
  "lit_match ci [] s = Some s"
| "lit_match ci (p # ps) [] = None"
| "lit_match ci (p # ps) (c # cs) = (if ceq ci p c then lit_match ci ps cs else None)"

definition in_class :: "bool \<Rightarrow> string \<Rightarrow> char \<Rightarrow> bool" where
  "in_class ci cls x = list_ex (\<lambda>c. ceq ci c x) cls"

text \<open>
  The characters that \<^verbatim>\<open>.\<close> does not match (the line terminators), those of
  \<^verbatim>\<open>\s\<close> (the white space and the line terminators of the language: below 256 these
  are the five ASCII controls, the space and the no-break space \<^verbatim>\<open>U+00A0\<close>) and those
  of \<^verbatim>\<open>\w\<close> (ASCII letters, digits and the underscore).
\<close>

definition line_terminators :: string where
  "line_terminators = [CHR 0x0A, CHR 0x0D]"

definition white_space :: string where
  "white_space = [CHR 0x09, CHR 0x0A, CHR 0x0B, CHR 0x0C, CHR 0x0D, CHR 0x20, CHR 0xA0]"

definition word_chars :: string where
  "word_chars = upper_letters @ lower_letters @ digits @ ''_''"

fun rest_of :: "mstate \<Rightarrow> string" where
  "rest_of (p, s, c) = s"

definition advanced :: "mstate \<Rightarrow> mstate \<Rightarrow> bool" where
  "advanced st st' = (length (rest_of st') < length (rest_of st))"

fun set_group :: "nat \<Rightarrow> mstate \<Rightarrow> mstate \<Rightarrow> mstate" where
  "set_group n (p, s, c) (p', s', c') = (p', s', (n, take (p' - p) s) # c')"

function rmatch :: "bool \<Rightarrow> regex \<Rightarrow> mstate \<Rightarrow> mstate list" where
  "rmatch ci (Lit l) (p, s, c) =
     (case lit_match ci l s of None \<Rightarrow> [] | Some r \<Rightarrow> [(p + length l, r, c)])"
| "rmatch ci AnyCh (p, s, c) =
     (case s of
        [] \<Rightarrow> []
      | x # xs \<Rightarrow> if x \<in> set line_terminators then [] else [(Suc p, xs, c)])"
| "rmatch ci (OneOf cls) (p, s, c) =
     (case s of [] \<Rightarrow> [] | x # xs \<Rightarrow> if in_class ci cls x then [(Suc p, xs, c)] else [])"
| "rmatch ci (NoneOf cls) (p, s, c) =
     (case s of [] \<Rightarrow> [] | x # xs \<Rightarrow> if in_class ci cls x then [] else [(Suc p, xs, c)])"
| "rmatch ci Bol (p, s, c) = (if p = 0 then [(p, s, c)] else [])"
| "rmatch ci Eol (p, s, c) = (if s = [] then [(p, s, c)] else [])"
| "rmatch ci (Seq a b) st = concat (map (rmatch ci b) (rmatch ci a st))"
| "rmatch ci (Alt a b) st = rmatch ci a st @ rmatch ci b st"
| "rmatch ci (Star r) st =
     concat (map (\<lambda>st'. if advanced st st' then rmatch ci (Star r) st' else [])
               (rmatch ci r st))
     @ [st]"
| "rmatch ci (StarLazy r) st =
     st # concat (map (\<lambda>st'. if advanced st st' then rmatch ci (StarLazy r) st' else [])
                   (rmatch ci r st))"
| "rmatch ci (Opt r) st = filter (advanced st) (rmatch ci r st) @ [st]"
| "rmatch ci (Grp n r) st = map (set_group n st) (rmatch ci r st)"
  by pat_completeness auto
termination
  by (relation "inv_image (less_than <*lex*> less_than)
        (\<lambda>(ci, r, st). (size r, length (rest_of st)))")
     (auto simp: advanced_def)

declare rmatch.simps [simp del]

text \<open>
  The search of \<^verbatim>\<open>text.match(re)\<close> and \<^verbatim>\<open>re.test(text)\<close>: the leftmost position
  at which the pattern matches, and there the first match. The result lists the groups,
  group 0 being the whole match; \<open>grp m i\<close> is \<^verbatim>\<open>m[i]\<close>.
\<close>

fun search_from :: "bool \<Rightarrow> regex \<Rightarrow> nat \<Rightarrow> string \<Rightarrow> (nat \<times> mstate) option" where
  "search_from ci r p [] =
     (case rmatch ci r (p, [], []) of [] \<Rightarrow> None | st # _ \<Rightarrow> Some (p, st))"
| "search_from ci r p (x # xs) =
     (case rmatch ci r (p, x # xs, []) of
        [] \<Rightarrow> search_from ci r (Suc p) xs
      | st # _ \<Rightarrow> Some (p, st))"

fun match_groups :: "string \<Rightarrow> nat \<times> mstate \<Rightarrow> captures" where
  "match_groups s (p, (p', s', c)) = (0, take (p' - p) (drop p s)) # c"

definition regex_match :: "bool \<Rightarrow> regex \<Rightarrow> string \<Rightarrow> captures option" where
  "regex_match ci r s = map_option (match_groups s) (search_from ci r 0 s)"

definition regex_test :: "bool \<Rightarrow> regex \<Rightarrow> string \<Rightarrow> bool" where
  "regex_test ci r s = (regex_match ci r s \<noteq> None)"

definition grp :: "captures \<Rightarrow> nat \<Rightarrow> string option" where
  "grp m i = map_of m i"

text \<open>
  \<^verbatim>\<open>text.replace(re, "")\<close> for a pattern with the \<^verbatim>\<open>g\<close> flag: every match, found
  from left to right after the end of the one before, is removed. The last argument
  counts the characters of a match that are still to be dropped.
\<close>

fun remove_all :: "bool \<Rightarrow> regex \<Rightarrow> nat \<Rightarrow> nat \<Rightarrow> string \<Rightarrow> string" where
  "remove_all ci r p k [] = []"
| "remove_all ci r p (Suc k) (x # xs) = remove_all ci r (Suc p) k xs"
| "remove_all ci r p 0 (x # xs) =
     (case rmatch ci r (p, x # xs, []) of
        [] \<Rightarrow> x # remove_all ci r (Suc p) 0 xs
      | (p', s', c) # _ \<Rightarrow>
          if p' = p then x # remove_all ci r (Suc p) 0 xs
          else remove_all ci r (Suc p) (p' - p - 1) xs)"

text \<open>Sequences and alternations of several patterns, \<^verbatim>\<open>r+\<close> and \<^verbatim>\<open>\d\<close>.\<close>

fun seqs :: "regex list \<Rightarrow> regex" where
  "seqs [] = Lit []"
| "seqs [r] = r"
| "seqs (r # rs) = Seq r (seqs rs)"

fun alts :: "regex list \<Rightarrow> regex" where
  "alts [] = OneOf []"
| "alts [r] = r"
| "alts (r # rs) = Alt r (alts rs)"

definition Plus :: "regex \<Rightarrow> regex" where
  "Plus r = Seq r (Star r)"

definition digit :: regex where
  "digit = OneOf digits"

text \<open>
  What JavaScript reads from a value in a condition and in \<^verbatim>\<open>re.test(v)\<close>: a string
  is truthy unless it is empty, \<^verbatim>\<open>undefined\<close> is falsy and converts to the text
  \<^verbatim>\<open>undefined\<close>.
\<close>

definition truthy :: "string option \<Rightarrow> bool" where
  "truthy v = (case v of None \<Rightarrow> False | Some s \<Rightarrow> s \<noteq> [])"

definition js_string :: "string option \<Rightarrow> string" where
  "js_string v = (case v of None \<Rightarrow> ''undefined'' | Some s \<Rightarrow> s)"

section \<open>Bill identifiers\<close>

text \<open>
  \<^verbatim>\<open>build_bill_id\<close> and \<^verbatim>\<open>split_bill_id\<close>. The pattern of the latter is
  \<^verbatim>\<open>/^([a-z]+)(\d+)-(\d+)$/\<close>. When the text does not match, \<^verbatim>\<open>groups\<close> is
  \<^verbatim>\<open>null\<close>, the access \<^verbatim>\<open>groups[1]\<close> throws, and the \<^verbatim>\<open>catch\<close> throws the
  status object instead. The three groups take part in every match, so they are
  strings whenever there is a match.
\<close>

definition build_bill_id :: "string \<Rightarrow> string \<Rightarrow> string \<Rightarrow> string" where
  "build_bill_id bill_type bill_number congress = bill_type @ bill_number @ ''-'' @ congress"

record bill_id_parts =
  p_bill_number :: string
  p_bill_type :: string
  p_congress :: string

definition bill_id_re :: regex where
  "bill_id_re = seqs [Bol, Grp 1 (Plus (OneOf lower_letters)), Grp 2 (Plus digit), Lit ''-'',
                      Grp 3 (Plus digit), Eol]"

definition InvalidBillId :: "string \<Rightarrow> error" where
  "InvalidBillId bill_id = StatusError 404 (''Invalid bill id: '' @ bill_id)"

definition split_bill_id :: "string \<Rightarrow> error + bill_id_parts" where
  "split_bill_id bill_id =
     (case regex_match False bill_id_re bill_id of
        None \<Rightarrow> Inl (InvalidBillId bill_id)
      | Some groups \<Rightarrow>
          (case (grp groups 1, grp groups 2, grp groups 3) of
             (Some t, Some n, Some c) \<Rightarrow>
               Inr \<lparr>p_bill_number = n, p_bill_type = t, p_congress = c\<rparr>
           | _ \<Rightarrow> Inl (InvalidBillId bill_id)))"

section \<open>The status after a vote\<close>

text \<open>
  \<^verbatim>\<open>new_status_after_vote\<close> of \<^verbatim>\<open>src/tasks/transformBill.js\<close>. The arguments
  \<open>passed\<close>, \<open>suspension\<close> and \<open>amended\<close> are read for their truthiness only, so
  they are booleans here; a call that falls off the end of the function, or reaches the
  bare \<^verbatim>\<open>return\<close>, yields \<^verbatim>\<open>undefined\<close>, which is \<open>None\<close>.
\<close>

definition constamend_title :: string where
  "constamend_title = ''Proposing an amendment to the Constitution of the United States''"

definition new_status_after_vote ::
  "string \<Rightarrow> bool \<Rightarrow> string \<Rightarrow> string \<Rightarrow> bool \<Rightarrow> bool \<Rightarrow> string \<Rightarrow> string \<Rightarrow> string option" where
  "new_status_after_vote vote_type passed chamber bill_type suspension amended title prev_status =
    (if vote_type = ''vote'' then
       (if passed then
          (if bill_type = ''hres'' \<or> bill_type = ''sres'' then Some ''PASSED:SIMPLERES''
           else if chamber = ''h'' then Some ''PASS_OVER:HOUSE''
           else Some ''PASS_OVER:SENATE'')
        else if suspension then Some ''PROV_KILL:SUSPENSIONFAILED''
        else if chamber = ''h'' then Some ''FAIL:ORIGINATING:HOUSE''
        else Some ''FAIL:ORIGINATING:SENATE'')
     else if vote_type = ''vote2'' \<or> vote_type = ''pingpong'' then
       (if passed then
          (if amended then
             (if chamber = ''h'' then Some ''PASS_BACK:HOUSE'' else Some ''PASS_BACK:SENATE'')
           else if (bill_type = ''hjres'' \<or> bill_type = ''sjres'')
                   \<and> startsWith title constamend_title then Some ''PASSED:CONSTAMEND''
           else if bill_type = ''hconres'' \<or> bill_type = ''sconres'' then
             Some ''PASSED:CONCURRENTRES''
           else Some ''PASSED:BILL'')
        else if vote_type = ''pingpong'' then Some ''PROV_KILL:PINGPONGFAIL''
        else if suspension then Some ''PROV_KILL:SUSPENSIONFAILED''
        else if chamber = ''h'' then Some ''FAIL:SECOND:HOUSE''
        else Some ''FAIL:SECOND:SENATE'')
     else if vote_type = ''cloture'' then
       (if \<not> passed then Some ''PROV_KILL:CLOTUREFAILED'' else None)
     else if vote_type = ''override'' then
       (if \<not> passed then
          (if bill_type = chamber then
             (if chamber = ''h'' then Some ''VETOED:OVERRIDE_FAIL_ORIGINATING:HOUSE''
              else Some ''VETOED:OVERRIDE_FAIL_ORIGINATING:SENATE'')
           else
             (if chamber = ''h'' then Some ''VETOED:OVERRIDE_FAIL_SECOND:HOUSE''
              else Some ''VETOED:OVERRIDE_FAIL_SECOND:SENATE''))
        else
          (if bill_type = chamber then
             (if chamber = ''h'' then Some ''VETOED:OVERRIDE_PASS_OVER:HOUSE''
              else Some ''VETOED:OVERRIDE_PASS_OVER:SENATE'')
           else Some ''ENACTED:VETO_OVERRIDE''))
     else if vote_type = ''conference'' then
       (if passed then
          (if startsWith prev_status ''CONFERENCE:PASSED:'' then
             (if (bill_type = ''hjres'' \<or> bill_type = ''sjres'')
                 \<and> startsWith title constamend_title then Some ''PASSED:CONSTAMEND''
              else if bill_type = ''hconres'' \<or> bill_type = ''sconres'' then
                Some ''PASSED:CONCURRENTRES''
              else Some ''PASSED:BILL'')
           else if chamber = ''h'' then Some ''CONFERENCE:PASSED:HOUSE''
           else Some ''CONFERENCE:PASSED:SENATE'')
        else None)
     else None)"

text \<open>The bill types, \<^verbatim>\<open>BILL_TYPES\<close> of \<^verbatim>\<open>src/tasks/processBillTypeUpdate.js\<close>.\<close>

definition BILL_TYPES :: "string list" where
  "BILL_TYPES = [''hres'', ''hconres'', ''hr'', ''hjres'', ''sres'', ''sjres'', ''s'', ''sconres'']"

subsection \<open>The table of the specification\<close>

text \<open>
  The vote-outcome table of section 4.3 of the specification, row by row and in the
  specification's words: a row names the vote types and the outcome it is about, its
  condition and the next status. The rows are read from the top and the first row that
  applies decides; \<open>None\<close> is "no change", also when no row applies.
\<close>

record vote_case =
  vc_voteType :: string
  vc_passed :: bool
  vc_chamber :: string
  vc_billType :: string
  vc_suspension :: bool
  vc_amended :: bool
  vc_officialTitle :: string
  vc_prevStatus :: string

type_synonym table_row =
  "string list \<times> bool \<times> (vote_case \<Rightarrow> bool) \<times> (vote_case \<Rightarrow> string option)"

definition by_chamber :: "string \<Rightarrow> vote_case \<Rightarrow> string option" where
  "by_chamber family v =
     (if vc_chamber v = ''h'' then Some (family @ ''HOUSE'')
      else if vc_chamber v = ''s'' then Some (family @ ''SENATE'')
      else None)"

definition proposes_constamend :: "vote_case \<Rightarrow> bool" where
  "proposes_constamend v =
     (vc_billType v \<in> {''hjres'', ''sjres''} \<and> prefix constamend_title (vc_officialTitle v))"

definition non_amended_branch :: "vote_case \<Rightarrow> string option" where
  "non_amended_branch v =
     (if proposes_constamend v then Some ''PASSED:CONSTAMEND''
      else if vc_billType v \<in> {''hconres'', ''sconres''} then Some ''PASSED:CONCURRENTRES''
      else Some ''PASSED:BILL'')"

definition vote_outcome_rows :: "table_row list" where
  "vote_outcome_rows =
    [([''vote''], True, (\<lambda>v. vc_billType v \<in> {''hres'', ''sres''}), (\<lambda>v. Some ''PASSED:SIMPLERES'')),
     ([''vote''], True, (\<lambda>v. True), by_chamber ''PASS_OVER:''),
     ([''vote''], False, vc_suspension, (\<lambda>v. Some ''PROV_KILL:SUSPENSIONFAILED'')),
     ([''vote''], False, (\<lambda>v. True), by_chamber ''FAIL:ORIGINATING:''),
     ([''vote2'', ''pingpong''], True, vc_amended, by_chamber ''PASS_BACK:''),
     ([''vote2'', ''pingpong''], True, proposes_constamend, (\<lambda>v. Some ''PASSED:CONSTAMEND'')),
     ([''vote2'', ''pingpong''], True, (\<lambda>v. vc_billType v \<in> {''hconres'', ''sconres''}),
        (\<lambda>v. Some ''PASSED:CONCURRENTRES'')),
     ([''vote2'', ''pingpong''], True, (\<lambda>v. True), (\<lambda>v. Some ''PASSED:BILL'')),
     ([''pingpong''], False, (\<lambda>v. True), (\<lambda>v. Some ''PROV_KILL:PINGPONGFAIL'')),
     ([''vote2''], False, vc_suspension, (\<lambda>v. Some ''PROV_KILL:SUSPENSIONFAILED'')),
     ([''vote2''], False, (\<lambda>v. True), by_chamber ''FAIL:SECOND:''),
     ([''cloture''], False, (\<lambda>v. True), (\<lambda>v. Some ''PROV_KILL:CLOTUREFAILED'')),
     ([''cloture''], True, (\<lambda>v. True), (\<lambda>v. None)),
     ([''override''], False, (\<lambda>v. vc_billType v = vc_chamber v),
        by_chamber ''VETOED:OVERRIDE_FAIL_ORIGINATING:''),
     ([''override''], False, (\<lambda>v. vc_billType v \<noteq> vc_chamber v),
        by_chamber ''VETOED:OVERRIDE_FAIL_SECOND:''),
     ([''override''], True, (\<lambda>v. vc_billType v = vc_chamber v),
        by_chamber ''VETOED:OVERRIDE_PASS_OVER:''),
     ([''override''], True, (\<lambda>v. vc_billType v \<noteq> vc_chamber v),
        (\<lambda>v. Some ''ENACTED:VETO_OVERRIDE'')),
     ([''conference''], True, (\<lambda>v. prefix ''CONFERENCE:PASSED:'' (vc_prevStatus v)),
        non_amended_branch),
     ([''conference''], True, (\<lambda>v. True), by_chamber ''CONFERENCE:PASSED:''),
     ([''conference''], False, (\<lambda>v. True), (\<lambda>v. None))]"

fun row_applies :: "vote_case \<Rightarrow> table_row \<Rightarrow> bool" where
  "row_applies v (types, outcome, cond, next) =
     (vc_voteType v \<in> set types \<and> vc_passed v = outcome \<and> cond v)"

fun table_lookup :: "table_row list \<Rightarrow> vote_case \<Rightarrow> string option" where
  "table_lookup [] v = None"
| "table_lookup ((types, outcome, cond, next) # rows) v =
     (if row_applies v (types, outcome, cond, next) then next v else table_lookup rows v)"

definition VOTE_TYPES :: "string list" where
  "VOTE_TYPES = [''vote'', ''vote2'', ''pingpong'', ''cloture'', ''override'', ''conference'']"


section \<open>Titles\<close>

text \<open>
  \<^verbatim>\<open>titles_for\<close> and its callback \<^verbatim>\<open>build_dict\<close>, and \<^verbatim>\<open>current_title_for\<close>.
  An item is the title node after \<^verbatim>\<open>transformNode\<close>: its \<^verbatim>\<open>titleType\<close> and its
  \<^verbatim>\<open>title\<close>. The method call \<^verbatim>\<open>full_type.includes\<close> on a missing
  \<^verbatim>\<open>titleType\<close> throws.
\<close>

record title_item =
  ti_titleType :: "string option"
  ti_title :: "string option"

record title_dict =
  t_title :: "string option"
  t_is_for_portion :: bool
  t_as :: "string option"
  t_type :: string

definition UnknownTitleType :: "string \<Rightarrow> error" where
  "UnknownTitleType title_type = StatusError 400 (''Unknown title type: '' @ title_type)"

definition portions_phrase :: string where
  "portions_phrase = '' for portions of this bill''"

definition title_splits :: "string \<Rightarrow> string list" where
  "title_splits full_type =
     (if includes_str full_type '' as '' then split full_type '' as ''
      else split full_type '' on '')"

definition title_kind :: "string \<Rightarrow> error + string" where
  "title_kind title_type =
     (if includes_str title_type ''Popular Title'' then Inr ''popular''
      else if includes_str title_type ''Short Title'' then Inr ''short''
      else if includes_str title_type ''Official Title'' then Inr ''official''
      else if includes_str title_type ''Display Title'' then Inr ''display''
      else if title_type = ''Non-bill-report'' then Inr ''nonbillreport''
      else Inl (UnknownTitleType title_type))"

definition title_state :: "string \<Rightarrow> bool \<times> string" where
  "title_state state0 =
     (let is_for_portion = endsWith state0 portions_phrase;
          state1 = (if is_for_portion then replace_first state0 portions_phrase '''' else state0)
      in (is_for_portion, toLowerCase (replace_first state1 '':'' '''')))"

definition titles_for_build_dict :: "title_item \<Rightarrow> error + title_dict" where
  "titles_for_build_dict item =
     (case ti_titleType item of
        None \<Rightarrow> Inl TypeError
      | Some full_type \<Rightarrow>
          (case title_splits full_type of
             [title_type, state0] \<Rightarrow>
               (case title_kind title_type of
                  Inl e \<Rightarrow> Inl e
                | Inr kind \<Rightarrow>
                    Inr \<lparr>t_title = ti_title item,
                         t_is_for_portion = fst (title_state state0),
                         t_as = Some (snd (title_state state0)),
                         t_type = kind\<rparr>)
           | _ \<Rightarrow>
               (case title_kind full_type of
                  Inl e \<Rightarrow> Inl e
                | Inr kind \<Rightarrow>
                    Inr \<lparr>t_title = ti_title item, t_is_for_portion = False, t_as = None,
                         t_type = kind\<rparr>)))"

text \<open>\<^verbatim>\<open>xs.map(f)\<close> for a callback that may throw: the first throw ends the loop.\<close>

fun map_result :: "('a \<Rightarrow> error + 'b) \<Rightarrow> 'a list \<Rightarrow> error + 'b list" where
  "map_result f [] = Inr []"
| "map_result f (x # xs) =
     (case f x of
        Inl e \<Rightarrow> Inl e
      | Inr y \<Rightarrow> (case map_result f xs of Inl e \<Rightarrow> Inl e | Inr ys \<Rightarrow> Inr (y # ys)))"

definition titles_for :: "title_item list \<Rightarrow> error + title_dict list" where
  "titles_for titles = map_result titles_for_build_dict titles"

text \<open>\<^verbatim>\<open>xs.filter(p).pop()\<close>: the last element that satisfies \<open>p\<close>.\<close>

definition last_where :: "('a \<Rightarrow> bool) \<Rightarrow> 'a list \<Rightarrow> 'a option" where
  "last_where p xs = (case filter p xs of [] \<Rightarrow> None | y # ys \<Rightarrow> Some (last (y # ys)))"

definition current_title_for :: "title_dict list \<Rightarrow> string \<Rightarrow> string option" where
  "current_title_for titles title_type =
     (case last_where (\<lambda>item. t_type item = title_type) titles of
        None \<Rightarrow> None
      | Some current_title \<Rightarrow> t_title current_title)"

section \<open>Actions\<close>

subsection \<open>Raw actions and \<^verbatim>\<open>action_for\<close>\<close>

text \<open>
  A raw action is the action node after \<^verbatim>\<open>transformNode\<close>. Its source system keeps
  the \<^verbatim>\<open>code\<close> that \<^verbatim>\<open>keep_action\<close> compares to \<^verbatim>\<open>"9"\<close> with \<^verbatim>\<open>==\<close>.
  The classified action is the object \<^verbatim>\<open>action_dict\<close>: the four keys that
  \<^verbatim>\<open>action_for\<close> sets, \<^verbatim>\<open>status\<close>, and the keys that \<^verbatim>\<open>Object.assign\<close>
  copies from the \<^verbatim>\<open>action\<close> object of \<^verbatim>\<open>parse_bill_action\<close>, which are kept
  together in \<open>a_info\<close> (the key \<^verbatim>\<open>type\<close> is one of them).

  The conversion \<^verbatim>\<open>new Date(s).toISOString()\<close> belongs to the JavaScript library
  and depends on the time zone of the host; it is the parameter \<open>toISOString\<close>, with
  \<open>None\<close> where the library throws a \<^verbatim>\<open>RangeError\<close> (a text that is not a date).
\<close>

record source_system =
  ss_code :: "string option"

record raw_action =
  actionDate :: "string option"
  actionTime :: "string option"
  actionCode :: "string option"
  actionText :: "string option"
  sourceSystem :: "source_system option"

record action_info =
  i_type :: string
  i_vote_type :: "string option"
  i_how :: "string option"
  i_where :: "string option"
  i_result :: "string option"
  i_suspension :: "bool option"
  i_roll :: "string option"
  i_committee :: "string option"
  i_pocket :: "string option"
  i_law :: "string option"
  i_congress :: "string option"
  i_number :: "string option"

record action_dict =
  acted_at :: string
  action_code :: "string option"
  a_text :: string
  a_status :: "string option"
  a_info :: action_info

definition plain_action :: action_info where
  "plain_action =
     \<lparr>i_type = ''action'', i_vote_type = None, i_how = None, i_where = None, i_result = None,
      i_suspension = None, i_roll = None, i_committee = None, i_pocket = None, i_law = None,
      i_congress = None, i_number = None\<rparr>"

definition a_type :: "action_dict \<Rightarrow> string" where
  "a_type a = i_type (a_info a)"

text \<open>The pattern \<^verbatim>\<open>/r<\/?[Aa]( \S.*?)?>/g\<close> of \<^verbatim>\<open>action_for\<close>.\<close>

definition links_re :: regex where
  "links_re = seqs [Lit ''r<'', Opt (Lit ''/''), OneOf ''Aa'',
                    Opt (Grp 1 (seqs [Lit '' '', NoneOf white_space, StarLazy AnyCh])), Lit ''>'']"

definition strip_links :: "string \<Rightarrow> string" where
  "strip_links t = remove_all False links_re 0 0 t"

definition date_string :: "raw_action \<Rightarrow> string" where
  "date_string item =
     js_string (actionDate item)
     @ (if truthy (actionTime item) then ''T'' @ js_string (actionTime item) else '''')"

definition action_for :: "(string \<Rightarrow> string option) \<Rightarrow> raw_action \<Rightarrow> error + action_dict" where
  "action_for toISOString item =
     (case toISOString (date_string item) of
        None \<Rightarrow> Inl RangeError
      | Some acted \<Rightarrow>
          Inr \<lparr>acted_at = acted,
               action_code = actionCode item,
               a_text = strip_links (case actionText item of None \<Rightarrow> '''' | Some t \<Rightarrow> t),
               a_status = None,
               a_info = plain_action\<rparr>)"

subsection \<open>The filter \<^verbatim>\<open>keep_action\<close>\<close>

text \<open>
  \<^verbatim>\<open>keep_action\<close> reads and writes \<^verbatim>\<open>closure['prev']\<close>; here the value is passed
  in and the new one returned with the verdict. The access
  \<^verbatim>\<open>item['sourceSystem']['code']\<close> throws when the item has no source system. The
  conjunction is evaluated from the left, so \<^verbatim>\<open>action_for\<close> runs (and may throw)
  only when the dates and the times agree.
\<close>

definition keep_action ::
  "(string \<Rightarrow> string option) \<Rightarrow> raw_action option \<Rightarrow> raw_action
     \<Rightarrow> error + (bool \<times> raw_action option)" where
  "keep_action toISOString prev item =
     (if \<not> truthy (actionText item) then Inr (False, prev)
      else
        (case prev of
           None \<Rightarrow> Inr (True, Some item)
         | Some earlier \<Rightarrow>
             (case sourceSystem item of
                None \<Rightarrow> Inl TypeError
              | Some system \<Rightarrow>
                  if ss_code system = Some ''9''
                     \<and> actionDate item = actionDate earlier
                     \<and> (actionTime item = actionTime earlier \<or> \<not> truthy (actionTime item)
                          \<or> \<not> truthy (actionTime earlier))
                  then
                    (case action_for toISOString item of
                       Inl e \<Rightarrow> Inl e
                     | Inr this \<Rightarrow>
                         (case action_for toISOString earlier of
                            Inl e \<Rightarrow> Inl e
                          | Inr that \<Rightarrow>
                              Inr (\<not> endsWith (replace_first (a_text this) '' '' '''')
                                                (replace_first (a_text that) '' '' ''''),
                                   Some item)))
                  else Inr (True, Some item))))"

fun filter_keep ::
  "(string \<Rightarrow> string option) \<Rightarrow> raw_action option \<Rightarrow> raw_action list
     \<Rightarrow> error + raw_action list" where
  "filter_keep toISOString prev [] = Inr []"
| "filter_keep toISOString prev (item # items) =
     (case keep_action toISOString prev item of
        Inl e \<Rightarrow> Inl e
      | Inr (keep, prev') \<Rightarrow>
          (case filter_keep toISOString prev' items of
             Inl e \<Rightarrow> Inl e
           | Inr kept \<Rightarrow> Inr (if keep then item # kept else kept)))"

text \<open>\<^verbatim>\<open>actions.filter(keep_action).reverse()\<close>, the closure starting without \<^verbatim>\<open>prev\<close>.\<close>

definition kept_actions ::
  "(string \<Rightarrow> string option) \<Rightarrow> raw_action list \<Rightarrow> error + raw_action list" where
  "kept_actions toISOString items =
     (case filter_keep toISOString None items of
        Inl e \<Rightarrow> Inl e
      | Inr kept \<Rightarrow> Inr (rev kept))"

subsection \<open>The patterns of \<^verbatim>\<open>parse_bill_action\<close>\<close>

text \<open>
  Each pattern is written as the program has it, after the escapes of the string
  literals it is built from are resolved (in a string literal \<^verbatim>\<open>"\("\<close> is the
  character \<^verbatim>\<open>(\<close> and \<^verbatim>\<open>"\\d"\<close> is \<^verbatim>\<open>\d\<close>). The groups are numbered by
  their opening parentheses.
\<close>

text \<open>\<^verbatim>\<open>/^(H|S)\.Amdt\.(\d+)/i\<close>\<close>

definition amendment_re :: regex where
  "amendment_re = seqs [Bol, Grp 1 (alts [Lit ''H'', Lit ''S'']), Lit ''.Amdt.'', Grp 2 (Plus digit)]"

text \<open>
  The House vote, flag \<^verbatim>\<open>i\<close>: the motion (group 1), the override clause (2), the
  amended clause (3), the outcome (4) and how the vote was taken (5).
\<close>

definition house_vote_re :: regex where
  "house_vote_re = seqs [
     Grp 1 (alts [
       Lit ''On passage'',
       Lit ''Passed House'',
       seqs [Lit ''Two-thirds of the Members present having voted in the affirmative the bill is passed'',
             Opt (Lit '','')],
       seqs [Lit ''On motion to suspend the rules and pass the '',
             alts [Lit ''bill'', Lit ''resolution'']],
       seqs [Lit ''On agreeing to the '', alts [Lit ''resolution'', Lit ''conference report'']],
       seqs [Lit ''On motion to suspend the rules and agree to the '',
             alts [Lit ''resolution'', Lit ''conference report'']],
       seqs [Lit ''House Agreed to Senate Amendments'', StarLazy AnyCh],
       seqs [Lit ''On motion '', Opt (Lit ''that ''), Lit ''the House '',
             Opt (Lit ''suspend the rules and ''),
             alts [seqs [Lit ''agree'', Opt (Lit '' with an amendment''), Lit '' to''],
                   Lit ''concur in''],
             Lit '' the Senate amendment'', Opt (Lit ''s''),
             Star (alts [seqs [Lit '' to the House amendment'', Opt (Lit ''s'')],
                         seqs [Lit '' to the Senate amendment'', Opt (Lit ''s'')]])]]),
     Opt (Grp 2 (seqs [Lit '', the objections of the President to the contrary notwithstanding'',
                       Opt AnyCh])),
     Opt (Grp 3 (alts [Lit '', as amended'', Lit '' (Amended)''])),
     Opt (Lit ''.''), Lit '' '',
     Opt (Grp 4 (alts [Lit ''Passed'', Lit ''Failed'', Lit ''Agreed to'', Lit ''Rejected''])),
     Opt (Lit '' ''),
     Grp 5 (alts [
       Lit ''by voice vote'',
       Lit ''without objection'',
       seqs [Lit ''by '',
             Grp 6 (alts [seqs [Lit ''the Yeas and Nay'', Opt (Lit ''s'')],
                          Lit ''Yea-Nay Vote'', Lit ''recorded vote'']),
             Opt (Grp 7 (seqs [Opt (Lit '':''), Lit '' (2/3 required)''])),
             Lit '': '',
             Opt (Grp 8 (seqs [Plus digit, Opt (Lit '' ''), Lit ''-'', Opt (Lit '' ''), Plus digit,
                               Opt (Grp 9 (seqs [Lit '', '', Plus digit, Lit '' Present''])),
                               Lit '' '', Star (OneOf '' )'')])),
             Lit ''('', Grp 10 (alts [Lit ''Roll no.'', Lit ''Record Vote No:'']),
             Lit '' '', Plus digit, Lit '')'']])]"

text \<open>The tests of the House vote, all with the flag \<^verbatim>\<open>i\<close>.\<close>

definition passed_house_re :: regex where
  "passed_house_re = alts [Lit ''Passed House'', Lit ''House Agreed to'']"

definition ayes_prevailed_re :: regex where
  "ayes_prevailed_re = seqs [Grp 1 (alts [Lit ''ayes'', Lit ''yeas'']), Lit '' had prevailed'']"

definition pass_agreed_re :: regex where
  "pass_agreed_re = alts [Lit ''Pass'', Lit ''Agreed'']"

definition two_thirds_re :: regex where
  "two_thirds_re = Lit ''Two-thirds of the Members present''"

definition senate_amendment_re :: regex where
  "senate_amendment_re =
     seqs [Grp 1 (alts [seqs [Lit ''agree '', Opt (Grp 2 (Lit ''with an amendment '')), Lit ''to''],
                        Lit ''concur in'']),
           Lit '' the Senate amendment'']"

definition conference_report_re :: regex where
  "conference_report_re = Lit ''conference report''"

text \<open>\<^verbatim>\<open>/\((Roll no\.|Record Vote No:) (\d+)\)/i\<close>\<close>

definition roll_re :: regex where
  "roll_re = seqs [Lit ''('', Grp 1 (alts [Lit ''Roll no.'', Lit ''Record Vote No:'']), Lit '' '',
                   Grp 2 (Plus digit), Lit '')'']"

definition suspend_rules_re :: regex where
  "suspend_rules_re = Lit ''On motion to suspend the rules''"

definition house_agree_amendment_re :: regex where
  "house_agree_amendment_re = Lit ''the House agree with an amendment''"

text \<open>Passage by a special rule, flag \<^verbatim>\<open>i\<close>, and its tests.\<close>

definition special_rule_re :: regex where
  "special_rule_re = alts [
     Lit ''Passed House pursuant to'',
     seqs [Lit ''House agreed to Senate amendment '', Opt (Grp 1 (Lit ''with amendment '')),
           Lit ''pursuant to''],
     seqs [Lit ''Pursuant to the provisions of '', Plus (OneOf ''HSCONJRES. ''), Lit '' '',
           Plus digit, Lit '', '', Plus (OneOf ''HSCONJRES. ''), Lit '' '', Plus digit,
           Lit '' is considered passed House'']]"

definition agreed_senate_amendment_re :: regex where
  "agreed_senate_amendment_re = Lit ''agreed to Senate amendment''"

definition with_amendment_re :: regex where
  "with_amendment_re = Lit ''with amendment''"

definition as_amended_re :: regex where
  "as_amended_re = Lit ''as amended''"

text \<open>The agreed-to motion to table, flag \<^verbatim>\<open>i\<close>; group 1 is how the vote was taken.\<close>

definition table_re :: regex where
  "table_re = seqs [
     Lit ''On motion to table the measure Agreed to'', Opt (Lit '' ''),
     Grp 1 (alts [
       Lit ''by voice vote'',
       Lit ''without objection'',
       seqs [Lit ''by '',
             Grp 2 (alts [Lit ''the Yeas and Nays'', Lit ''Yea-Nay Vote'', Lit ''recorded vote'']),
             Lit '': '',
             Opt (Grp 3 (seqs [Plus digit, Lit '' - '', Plus digit,
                               Opt (Grp 4 (seqs [Lit '', '', Plus digit, Lit '' Present''])),
                               Lit '' '', Star (OneOf '' )'')])),
             Lit ''('', Grp 5 (alts [Lit ''Roll no.'', Lit ''Record Vote No:'']),
             Lit '' '', Plus digit, Lit '')'']])]"

text \<open>
  The Senate vote: the motion (group 1), what follows it (2) and how the vote was taken
  (3). The program passes the pattern text, not the compiled pattern, to
  \<^verbatim>\<open>match\<close>, so this pattern has no flag.
\<close>

definition senate_vote_re :: regex where
  "senate_vote_re = seqs [
     Grp 1 (alts [
       Lit ''Passed Senate'',
       Lit ''Failed of passage in Senate'',
       Lit ''Disagreed to in Senate'',
       Lit ''Resolution agreed to in Senate'',
       seqs [Lit ''Senate '', alts [Lit ''agreed to'', Lit ''concurred in''], Lit '' '',
             Opt (Lit ''the ''),
             alts [Lit ''conference report'',
                   seqs [Lit ''House amendment'',
                         Star (alts [seqs [Lit '' to the Senate amendment'', Opt (Lit ''s'')],
                                     seqs [Lit '' to the House amendment'', Opt (Lit ''s'')]])]]],
       Lit ''Senate receded from its amendment and concurred'',
       seqs [Lit ''Cloture '', Star (NoneOf white_space), Opt (OneOf white_space),
             Lit ''on the motion to proceed '', StarLazy AnyCh, Lit ''not invoked in Senate''],
       seqs [Lit ''Cloture'', Opt (Lit '' motion''), Lit '' on the motion to proceed to the '',
             alts [Lit ''bill'', Lit ''measure''], Lit '' invoked in Senate''],
       Lit ''Cloture invoked in Senate'',
       seqs [Lit ''Cloture on '',
             seqs [Lit ''the motion to '', alts [Lit ''proceed to '', Lit ''concur in ''],
                   Opt (seqs [Lit ''the House amendment '', Opt (Lit ''to the Senate amendment ''),
                              Lit ''to ''])],
             alts [Lit ''the bill'', seqs [Lit ''H'', AnyCh, Lit ''R'', AnyCh, Lit '' '', Star AnyCh]],
             Lit '' '', Opt (Lit ''not ''), Lit ''invoked in Senate''],
       seqs [alts [Lit ''Introduced'', Lit ''Received'', Lit ''Submitted''], Lit '' in the Senate, '',
             Plus (alts [Lit ''read twice, '', Lit ''considered, '', Lit ''read the third time, '']),
             Lit ''and '', alts [Lit ''passed'', Lit ''agreed to'']]]),
     Grp 2 (seqs [Opt (Lit '',''), Star AnyCh, Opt (Lit '','')]),
     Lit '' '',
     Grp 3 (alts [
       Lit ''without objection'',
       Lit ''by Unanimous Consent'',
       Lit ''by Voice Vote'',
       seqs [Opt (Lit ''by ''), Lit ''Yea-Nay'', Opt (Grp 4 (Lit '' Vote'')), Lit ''. '',
             Plus digit, Star (OneOf white_space), Lit ''-'', Star (OneOf white_space), Plus digit,
             Lit ''. Record Vote '', Grp 5 (alts [Lit ''No'', Lit ''Number'']), Lit '': '',
             Plus digit]])]"

text \<open>The tests of the Senate vote, all with the flag \<^verbatim>\<open>i\<close>.\<close>

definition disagreed_re :: regex where
  "disagreed_re = alts [Lit ''disagreed'', Lit ''not invoked'']"

definition passed_re :: regex where
  "passed_re = alts [Lit ''passed'', Lit ''agreed'', Lit ''concurred'', Lit ''invoked'']"

definition over_veto_re :: regex where
  "over_veto_re = Lit ''over veto''"

definition cloture_re :: regex where
  "cloture_re = Lit ''cloture''"

definition house_amendment_re :: regex where
  "house_amendment_re = alts [
     seqs [Lit ''Senate agreed to '', Opt (Grp 1 (Lit ''the '')), Lit ''House amendment''],
     seqs [Lit ''Senate concurred in '', Opt (Grp 2 (Lit ''the '')), Lit ''House amendment'']]"

definition record_vote_re :: regex where
  "record_vote_re = seqs [Lit ''Record Vote '', Grp 1 (alts [Lit ''No'', Lit ''Number'']), Lit '': '',
                          Grp 2 (Plus digit)]"

definition with_amendments_re :: regex where
  "with_amendments_re = alts [Lit ''with amendments'', Lit ''with an amendment'']"

text \<open>The procedural patterns, with the flag \<^verbatim>\<open>i\<close> unless said otherwise.\<close>

definition calendar_re :: regex where
  "calendar_re = alts [
     seqs [Lit ''Placed on '', Opt (Grp 1 (Lit ''the '')),
           Grp 2 (Plus (OneOf (word_chars @ '' ''))), Lit '' Calendar'',
           Opt (Grp 3 (seqs [Lit '' under '', Grp 4 (Plus (OneOf (word_chars @ '' '')))])),
           OneOf '',.'', Lit '' Calendar No. '', Grp 5 (Plus digit), Lit ''.''],
     Lit ''Committee Agreed to Seek Consideration Under Suspension of the Rules'',
     Lit ''Ordered to be Reported'']"

definition reported_re :: regex where
  "reported_re = seqs [Lit ''Committee on '', Grp 1 (Star AnyCh), Lit ''. Reported by'']"

definition reported_senate_re :: regex where
  "reported_senate_re =
     seqs [Lit ''Reported to Senate from the '', Grp 1 (StarLazy AnyCh),
           Opt (Grp 2 (Lit '' (without written report)'')), Lit ''.'']"

definition hearings_re :: regex where
  "hearings_re = seqs [Grp 1 (seqs [Lit ''Committee on '', StarLazy AnyCh]), Lit ''. Hearings held'']"

definition discharged_re :: regex where
  "discharged_re = seqs [Lit ''Committee on '', Grp 1 (Star AnyCh), Lit ''. Discharged '',
                         Opt (Grp 2 (Lit ''by Unanimous Consent''))]"

definition topresident_re :: regex where
  "topresident_re = alts [Lit ''Cleared for White House'', Lit ''Presented to President'']"

definition signed_re :: regex where
  "signed_re = Lit ''Signed by President''"

definition pocket_veto_re :: regex where
  "pocket_veto_re = Lit ''Pocket Vetoed by President''"

definition veto_re :: regex where
  "veto_re = Lit ''Vetoed by President''"

text \<open>\<^verbatim>\<open>/Sent to Archivist of the United States unsigned/\<close>, without a flag.\<close>

definition archivist_re :: regex where
  "archivist_re = Lit ''Sent to Archivist of the United States unsigned''"

text \<open>\<^verbatim>\<open>/^(?:Became )?(Public|Private) Law(?: No:)? ([\d\-]+)\./i\<close>\<close>

definition law_re :: regex where
  "law_re = seqs [Bol, Opt (Lit ''Became ''), Grp 1 (alts [Lit ''Public'', Lit ''Private'']),
                  Lit '' Law'', Opt (Lit '' No:''), Lit '' '', Grp 2 (Plus (OneOf (digits @ ''-''))),
                  Lit ''.'']"

text \<open>\<^verbatim>\<open>/Referred to (?:the )?(House|Senate)?\s?(?:Committee|Subcommittee)?/i\<close>\<close>

definition referral_re :: regex where
  "referral_re = seqs [Lit ''Referred to '', Opt (Lit ''the ''),
                       Opt (Grp 1 (alts [Lit ''House'', Lit ''Senate''])), Opt (OneOf white_space),
                       Opt (alts [Lit ''Committee'', Lit ''Subcommittee''])]"

subsection \<open>\<^verbatim>\<open>parse_bill_action\<close>\<close>

text \<open>
  The function runs its rules one after the other over three things that a rule may
  change: the object \<^verbatim>\<open>action\<close>, the variable \<^verbatim>\<open>status\<close>, and the variable
  \<^verbatim>\<open>roll\<close>, which is declared with \<^verbatim>\<open>var\<close> in three rules and so is one variable
  of the function that keeps its value from one rule to the next. The other variables
  are assigned in a rule before that rule reads them. A rule is a function on these
  locals; a rule that calls a method on a group of its match returns a \<open>TypeError\<close>
  where that group would be \<^verbatim>\<open>undefined\<close>.
\<close>

record locals =
  l_action :: action_info
  l_status :: "string option"
  l_roll :: "string option"

text \<open>\<^verbatim>\<open>if (new_status) status = new_status\<close>\<close>

definition status_after :: "string option \<Rightarrow> string option \<Rightarrow> string option" where
  "status_after new_status status = (if truthy new_status then new_status else status)"

text \<open>\<^verbatim>\<open>if (prev_status == "INTRODUCED" || prev_status == "REFERRED") status = "REPORTED"\<close>\<close>

definition reported_after :: "string \<Rightarrow> string option \<Rightarrow> string option" where
  "reported_after prev_status status =
     (if prev_status = ''INTRODUCED'' \<or> prev_status = ''REFERRED'' then Some ''REPORTED''
      else status)"

definition house_vote :: "string \<Rightarrow> string \<Rightarrow> string \<Rightarrow> string \<Rightarrow> locals \<Rightarrow> error + locals" where
  "house_vote text bill_type title prev_status l =
     (case regex_match True house_vote_re (replace_first text '', the Passed'' '', Passed'') of
        None \<Rightarrow> Inr l
      | Some m \<Rightarrow>
          (case grp m 5 of
             None \<Rightarrow> Inl TypeError
           | Some how0 \<Rightarrow>
               (let motion = js_string (grp m 1);
                    pass_fail =
                      (if regex_test True passed_house_re motion then ''pass''
                       else if regex_test True ayes_prevailed_re text then ''pass''
                       else if regex_test True pass_agreed_re (js_string (grp m 4)) then ''pass''
                       else ''fail'');
                    is_override = (regex_test True two_thirds_re motion \<or> truthy (grp m 2));
                    vote_type =
                      (if is_override then ''override''
                       else if regex_test True senate_amendment_re text then ''pingpong''
                       else if regex_test True conference_report_re text then ''conference''
                       else if bill_type = ''hr'' then ''vote''
                       else ''vote2'');
                    m2 = regex_match True roll_re how0;
                    how = (case m2 of None \<Rightarrow> how0 | Some r \<Rightarrow> ''roll'');
                    roll = (case m2 of None \<Rightarrow> l_roll l | Some r \<Rightarrow> grp r 2);
                    suspension = (truthy roll \<and> regex_test True suspend_rules_re motion);
                    as_amended =
                      (regex_test True house_agree_amendment_re motion \<or> truthy (grp m 3));
                    new_status = new_status_after_vote vote_type (pass_fail = ''pass'') ''h''
                                   bill_type suspension as_amended title prev_status
                in Inr \<lparr>l_action = (l_action l)\<lparr>
                            i_type := ''vote'',
                            i_vote_type := Some vote_type,
                            i_how := Some how,
                            i_where := Some ''h'',
                            i_result := Some pass_fail,
                            i_suspension := (if suspension then Some True else None),
                            i_roll := (if truthy roll then roll else i_roll (l_action l))\<rparr>,
                        l_status = status_after new_status (l_status l),
                        l_roll = roll\<rparr>)))"

definition special_rule :: "string \<Rightarrow> string \<Rightarrow> string \<Rightarrow> string \<Rightarrow> locals \<Rightarrow> locals" where
  "special_rule text bill_type title prev_status l =
     (if regex_test True special_rule_re text then
        (let vote_type =
               (if regex_test True agreed_senate_amendment_re text then ''pingpong''
                else if bill_type = ''hr'' then ''vote''
                else ''vote2'');
             as_amended =
               (regex_test True with_amendment_re text \<or> regex_test False as_amended_re text);
             new_status = new_status_after_vote vote_type True ''h'' bill_type False as_amended
                            title prev_status
         in l\<lparr>l_action := (l_action l)\<lparr>
                  i_type := ''vote'',
                  i_vote_type := Some vote_type,
                  i_how := Some ''by special rule'',
                  i_where := Some ''h'',
                  i_result := Some ''pass''\<rparr>,
              l_status := status_after new_status (l_status l)\<rparr>)
      else l)"

definition table_vote ::
  "string \<Rightarrow> string \<Rightarrow> string \<Rightarrow> string \<Rightarrow> string \<Rightarrow> locals \<Rightarrow> error + locals" where
  "table_vote text bill_id bill_type title prev_status l =
     (case regex_match True table_re text of
        None \<Rightarrow> Inr l
      | Some m \<Rightarrow>
          (case grp m 1 of
             None \<Rightarrow> Inl TypeError
           | Some how0 \<Rightarrow>
               (let vote_type =
                      (if prev_status = ''INTRODUCED'' \<or> startsWith bill_id ''hres'' then ''vote''
                       else ''vote2'');
                    m2 = regex_match True roll_re how0;
                    how = (case m2 of None \<Rightarrow> how0 | Some r \<Rightarrow> ''roll'');
                    roll = (case m2 of None \<Rightarrow> l_roll l | Some r \<Rightarrow> grp r 2);
                    new_status = new_status_after_vote vote_type False ''h'' bill_type False False
                                   title prev_status
                in Inr \<lparr>l_action = (l_action l)\<lparr>
                            i_type := ''vote'',
                            i_vote_type := Some vote_type,
                            i_how := Some how,
                            i_where := Some ''h'',
                            i_result := Some ''fail'',
                            i_roll := (if truthy roll then roll else i_roll (l_action l))\<rparr>,
                        l_status = status_after new_status (l_status l),
                        l_roll = roll\<rparr>)))"

definition senate_vote :: "string \<Rightarrow> string \<Rightarrow> string \<Rightarrow> string \<Rightarrow> locals \<Rightarrow> error + locals" where
  "senate_vote text bill_type title prev_status l =
     (case regex_match False senate_vote_re (replace_first text ''  '' '' '') of
        None \<Rightarrow> Inr l
      | Some m \<Rightarrow>
          (case grp m 3 of
             None \<Rightarrow> Inl TypeError
           | Some how0 \<Rightarrow>
               (let motion = js_string (grp m 1);
                    extra = js_string (grp m 2);
                    pass_fail =
                      (if regex_test True disagreed_re motion then ''fail''
                       else if regex_test True passed_re motion then ''pass''
                       else ''fail'');
                    vote_type =
                      (if regex_test True over_veto_re extra then ''override''
                       else if regex_test True conference_report_re motion then ''conference''
                       else if regex_test True cloture_re motion then ''cloture''
                       else if regex_test True house_amendment_re motion then ''pingpong''
                       else if bill_type = ''s'' then ''vote''
                       else ''vote2'');
                    voteaction_type = (if vote_type = ''cloture'' then ''vote-aux'' else ''vote'');
                    m2 = regex_match True record_vote_re how0;
                    how = (case m2 of None \<Rightarrow> how0 | Some r \<Rightarrow> ''roll'');
                    roll = (case m2 of None \<Rightarrow> l_roll l | Some r \<Rightarrow> grp r 2);
                    as_amended = regex_test True with_amendments_re extra;
                    new_status = new_status_after_vote vote_type (pass_fail = ''pass'') ''s''
                                   bill_type False as_amended title prev_status
                in Inr \<lparr>l_action = (l_action l)\<lparr>
                            i_type := voteaction_type,
                            i_vote_type := Some vote_type,
                            i_how := Some how,
                            i_result := Some pass_fail,
                            i_where := Some ''s'',
                            i_roll := (if truthy roll then roll else i_roll (l_action l))\<rparr>,
                        l_status = status_after new_status (l_status l),
                        l_roll = roll\<rparr>)))"

definition calendar :: "string \<Rightarrow> string \<Rightarrow> locals \<Rightarrow> locals" where
  "calendar text prev_status l =
     (if regex_test True calendar_re text then
        l\<lparr>l_status := reported_after prev_status (l_status l),
           l_action := (l_action l)\<lparr>i_type := ''calendar''\<rparr>\<rparr>
      else l)"

text \<open>The two forms of a committee report: the same assignments after either pattern.\<close>

definition reported :: "regex \<Rightarrow> string \<Rightarrow> string \<Rightarrow> locals \<Rightarrow> locals" where
  "reported re text prev_status l =
     (case regex_match True re text of
        None \<Rightarrow> l
      | Some m \<Rightarrow>
          l\<lparr>l_action := (l_action l)\<lparr>i_type := ''reported'', i_committee := grp m 1\<rparr>,
             l_status := reported_after prev_status (l_status l)\<rparr>)"

definition hearings :: "string \<Rightarrow> locals \<Rightarrow> locals" where
  "hearings text l =
     (case regex_match True hearings_re text of
        None \<Rightarrow> l
      | Some m \<Rightarrow> l\<lparr>l_action := (l_action l)\<lparr>i_committee := grp m 1, i_type := ''hearings''\<rparr>\<rparr>)"

text \<open>
  The discharge rule calls \<^verbatim>\<open>m.group(1)\<close>; a match array has no method
  \<^verbatim>\<open>group\<close>, so the call throws whenever the pattern matches.
\<close>

definition discharged :: "string \<Rightarrow> locals \<Rightarrow> error + locals" where
  "discharged text l =
     (case regex_match True discharged_re text of
        None \<Rightarrow> Inr l
      | Some m \<Rightarrow> Inl TypeError)"

definition topresident :: "string \<Rightarrow> locals \<Rightarrow> locals" where
  "topresident text l =
     (if regex_test True topresident_re text
      then l\<lparr>l_action := (l_action l)\<lparr>i_type := ''topresident''\<rparr>\<rparr>
      else l)"

definition signed :: "string \<Rightarrow> locals \<Rightarrow> locals" where
  "signed text l =
     (if regex_test True signed_re text
      then l\<lparr>l_action := (l_action l)\<lparr>i_type := ''signed''\<rparr>, l_status := Some ''ENACTED:SIGNED''\<rparr>
      else l)"

definition vetoed :: "string \<Rightarrow> locals \<Rightarrow> locals" where
  "vetoed text l =
     (if regex_test True pocket_veto_re text
      then l\<lparr>l_action := (l_action l)\<lparr>i_type := ''vetoed'', i_pocket := Some ''1''\<rparr>,
             l_status := Some ''VETOED:POCKET''\<rparr>
      else if regex_test True veto_re text
      then l\<lparr>l_action := (l_action l)\<lparr>i_type := ''vetoed''\<rparr>, l_status := Some ''PROV_KILL:VETO''\<rparr>
      else l)"

definition ten_day_rule :: "string \<Rightarrow> locals \<Rightarrow> locals" where
  "ten_day_rule text l =
     (if regex_test False archivist_re text then l\<lparr>l_status := Some ''ENACTED:TENDAYRULE''\<rparr>
      else l)"

definition nth_opt :: "'a list \<Rightarrow> nat \<Rightarrow> 'a option" where
  "nth_opt xs i = (if i < length xs then Some (xs ! i) else None)"

definition enacted :: "string \<Rightarrow> string \<Rightarrow> locals \<Rightarrow> error + locals" where
  "enacted text prev_status l =
     (case regex_match True law_re text of
        None \<Rightarrow> Inr l
      | Some m \<Rightarrow>
          (case (grp m 1, grp m 2) of
             (Some kind, Some citation) \<Rightarrow>
               (let pieces = split citation ''-''
                in Inr (l\<lparr>l_action := (l_action l)\<lparr>
                             i_law := Some (toLowerCase kind),
                             i_congress := nth_opt pieces 0,
                             i_number := nth_opt pieces 1,
                             i_type := ''enacted''\<rparr>,
                           l_status :=
                             (if prev_status = ''ENACTED:SIGNED''
                                 \<or> prev_status = ''ENACTED:VETO_OVERRIDE''
                                 \<or> prev_status = ''ENACTED:TENDAYRULE'' then l_status l
                              else if prev_status = ''PROV_KILL:VETO''
                                      \<or> startsWith prev_status ''VETOED:''
                              then Some ''ENACTED:VETO_OVERRIDE''
                              else l_status l)\<rparr>))
           | _ \<Rightarrow> Inl TypeError))"

definition referral :: "string \<Rightarrow> string \<Rightarrow> locals \<Rightarrow> locals" where
  "referral text prev_status l =
     (if regex_test True referral_re text
      then l\<lparr>l_action := (l_action l)\<lparr>i_type := ''referral''\<rparr>,
             l_status := (if prev_status = ''INTRODUCED'' then Some ''REFERRED'' else l_status l)\<rparr>
      else l)"

text \<open>
  The value that \<^verbatim>\<open>parse_bill_action\<close> returns is an object: the empty object for
  an action on an amendment, and otherwise the object with the keys \<^verbatim>\<open>action\<close> and
  \<^verbatim>\<open>status\<close>. It is the list of its keys with their values, so that a caller's
  read of a key is a lookup. The parameters \<^verbatim>\<open>prev_status\<close> and \<^verbatim>\<open>title\<close>
  default to the empty text when the argument is \<^verbatim>\<open>undefined\<close>.
\<close>

datatype parsed_value = ActionValue action_info | StatusValue "string option"

definition or_default :: "string option \<Rightarrow> string \<Rightarrow> string" where
  "or_default v d = (case v of None \<Rightarrow> d | Some s \<Rightarrow> s)"

definition classify ::
  "string \<Rightarrow> string \<Rightarrow> string \<Rightarrow> string \<Rightarrow> string \<Rightarrow> error + locals" where
  "classify text prev_status bill_id bill_type title =
     (case house_vote text bill_type title prev_status
             \<lparr>l_action = plain_action, l_status = None, l_roll = None\<rparr> of
        Inl e \<Rightarrow> Inl e
      | Inr l1 \<Rightarrow>
     (case table_vote text bill_id bill_type title prev_status
             (special_rule text bill_type title prev_status l1) of
        Inl e \<Rightarrow> Inl e
      | Inr l3 \<Rightarrow>
     (case senate_vote text bill_type title prev_status l3 of
        Inl e \<Rightarrow> Inl e
      | Inr l4 \<Rightarrow>
     (case discharged text
             (hearings text
               (reported reported_senate_re text prev_status
                 (reported reported_re text prev_status
                   (calendar text prev_status l4)))) of
        Inl e \<Rightarrow> Inl e
      | Inr l9 \<Rightarrow>
     (case enacted text prev_status
             (ten_day_rule text (vetoed text (signed text (topresident text l9)))) of
        Inl e \<Rightarrow> Inl e
      | Inr l14 \<Rightarrow> Inr (referral text prev_status l14))))))"

definition parse_bill_action ::
  "action_dict \<Rightarrow> string option \<Rightarrow> string \<Rightarrow> string option
     \<Rightarrow> error + (string \<times> parsed_value) list" where
  "parse_bill_action action_dict prev_status_arg bill_id title_arg =
     (case split_bill_id bill_id of
        Inl e \<Rightarrow> Inl e
      | Inr ids \<Rightarrow>
          if regex_test True amendment_re (a_text action_dict) then Inr []
          else
            (case classify (a_text action_dict) (or_default prev_status_arg '''') bill_id
                    (p_bill_type ids) (or_default title_arg '''') of
               Inl e \<Rightarrow> Inl e
             | Inr l \<Rightarrow>
                 Inr [(''action'', ActionValue (l_action l)),
                      (''status'', StatusValue (l_status l))]))"

subsection \<open>\<^verbatim>\<open>actions_for\<close>\<close>

text \<open>
  The callback \<^verbatim>\<open>build_dict(item, closure)\<close> is passed to \<^verbatim>\<open>map\<close>, which calls it
  with the element and its index: inside the callback \<^verbatim>\<open>closure\<close> is that number.
  A number has no property \<^verbatim>\<open>prev_status\<close>, so the read is \<^verbatim>\<open>undefined\<close>, and
  in strict mode the assignment to a property of a number throws. The callback reads
  the key \<^verbatim>\<open>stauts\<close> of the object that \<^verbatim>\<open>parse_bill_action\<close> returns.
\<close>

definition number_property :: "nat \<Rightarrow> string \<Rightarrow> string option" where
  "number_property n key = None"

definition read_status :: "(string \<times> parsed_value) list \<Rightarrow> string \<Rightarrow> string option" where
  "read_status obj key = (case map_of obj key of Some (StatusValue s) \<Rightarrow> s | _ \<Rightarrow> None)"

definition read_action :: "(string \<times> parsed_value) list \<Rightarrow> string \<Rightarrow> action_info option" where
  "read_action obj key = (case map_of obj key of Some (ActionValue a) \<Rightarrow> Some a | _ \<Rightarrow> None)"

definition actions_for_build_dict ::
  "(string \<Rightarrow> string option) \<Rightarrow> string \<Rightarrow> string option \<Rightarrow> raw_action \<Rightarrow> nat
     \<Rightarrow> error + action_dict" where
  "actions_for_build_dict toISOString bill_id title item closure =
     (case action_for toISOString item of
        Inl e \<Rightarrow> Inl e
      | Inr action_dict \<Rightarrow>
          (case parse_bill_action action_dict (number_property closure ''prev_status'')
                  bill_id title of
             Inl e \<Rightarrow> Inl e
           | Inr parsed \<Rightarrow>
               (let extra_action_info = read_action parsed ''action'';
                    new_status = read_status parsed ''stauts''
                in if truthy new_status then Inl TypeError
                   else
                     (case extra_action_info of
                        None \<Rightarrow> Inr action_dict
                      | Some extra \<Rightarrow> Inr (action_dict\<lparr>a_info := extra\<rparr>)))))"

text \<open>\<^verbatim>\<open>xs.map(f)\<close> for a callback that takes the element and its index.\<close>

fun map_indexed :: "('a \<Rightarrow> nat \<Rightarrow> error + 'b) \<Rightarrow> nat \<Rightarrow> 'a list \<Rightarrow> error + 'b list" where
  "map_indexed f i [] = Inr []"
| "map_indexed f i (x # xs) =
     (case f x i of
        Inl e \<Rightarrow> Inl e
      | Inr y \<Rightarrow> (case map_indexed f (Suc i) xs of Inl e \<Rightarrow> Inl e | Inr ys \<Rightarrow> Inr (y # ys)))"

definition actions_for ::
  "(string \<Rightarrow> string option) \<Rightarrow> raw_action list \<Rightarrow> string \<Rightarrow> string option
     \<Rightarrow> error + action_dict list" where
  "actions_for toISOString item bill_id title =
     (case kept_actions toISOString item of
        Inl e \<Rightarrow> Inl e
      | Inr kept \<Rightarrow> map_indexed (actions_for_build_dict toISOString bill_id title) 0 kept)"

section \<open>The bill record\<close>

subsection \<open>\<^verbatim>\<open>latest_status\<close>\<close>

text \<open>
  \<^verbatim>\<open>latest_status\<close> calls \<^verbatim>\<open>actions.pop()\<close>, which changes the array of its
  caller: the function returns the status, its date and the array as it is left.
\<close>

definition latest_status ::
  "action_dict list \<Rightarrow> string option \<Rightarrow> string option \<times> string option \<times> action_dict list" where
  "latest_status actions introduced_at =
     (case actions of
        [] \<Rightarrow> (Some ''INTRODUCED'', introduced_at, [])
      | a # others \<Rightarrow>
          (a_status (last (a # others)), Some (acted_at (last (a # others))),
           butlast (a # others)))"

subsection \<open>\<^verbatim>\<open>activation_from\<close> and \<^verbatim>\<open>history_from_actions\<close>\<close>

text \<open>
  \<^verbatim>\<open>activation_from\<close> returns an empty array for an empty list, the action it finds,
  or nothing when its loop ends without a \<^verbatim>\<open>return\<close>. The pattern of its test is
  \<^verbatim>\<open>/"Sponsor introductory remarks"/i\<close>, the two quotation marks being characters
  of the pattern.
\<close>

datatype activation = NoActivation | EmptyArray | Activation action_dict

definition introductory_remarks_re :: regex where
  "introductory_remarks_re = Lit ([CHR 0x22] @ ''Sponsor introductory remarks'' @ [CHR 0x22])"

definition activation_from :: "action_dict list \<Rightarrow> activation" where
  "activation_from actions =
     (case actions of
        [] \<Rightarrow> EmptyArray
      | first # others \<Rightarrow>
          if a_type first = ''referral'' \<or> a_type first = ''calendar'' \<or> a_type first = ''action''
          then
            (case find (\<lambda>action. a_type action \<noteq> ''referral'' \<and> a_type action \<noteq> ''calendar''
                              \<and> \<not> regex_test True introductory_remarks_re (a_text action))
                    others of
               None \<Rightarrow> NoActivation
             | Some action \<Rightarrow> Activation action)
          else Activation first)"

record history =
  h_active :: bool
  h_active_at :: "string option"
  h_house_passage_result :: "string option"
  h_house_passage_result_at :: "string option"
  h_senate_passage_result :: "string option"
  h_senate_passage_result_at :: "string option"
  h_senate_cloture_result :: "string option"
  h_senate_cloture_result_at :: "string option"
  h_vetoed :: bool
  h_vetoed_at :: "string option"
  h_house_override_result :: "string option"
  h_house_override_result_at :: "string option"
  h_senate_override_result :: "string option"
  h_senate_override_result_at :: "string option"
  h_enacted :: bool
  h_enacted_at :: "string option"
  h_awaiting_signature :: bool
  h_awaiting_signature_since :: "string option"

definition vote_in :: "string \<Rightarrow> string \<Rightarrow> bool \<Rightarrow> action_dict \<Rightarrow> bool" where
  "vote_in kind chamber override action =
     (a_type action = kind \<and> i_where (a_info action) = Some chamber
      \<and> ((i_vote_type (a_info action) = Some ''override'') = override))"

definition result_of :: "action_dict option \<Rightarrow> string option" where
  "result_of v = (case v of None \<Rightarrow> None | Some action \<Rightarrow> i_result (a_info action))"

definition time_of :: "action_dict option \<Rightarrow> string option" where
  "time_of v = (case v of None \<Rightarrow> None | Some action \<Rightarrow> Some (acted_at action))"

definition history_from_actions :: "action_dict list \<Rightarrow> history" where
  "history_from_actions actions =
     (let activation = activation_from actions;
          house_vote = last_where (vote_in ''vote'' ''h'' False) actions;
          senate_vote = last_where (vote_in ''vote'' ''s'' False) actions;
          senate_cloture =
            last_where (\<lambda>action. vote_in ''vote-aux'' ''s'' False action
                                 \<and> i_vote_type (a_info action) = Some ''cloture'') actions;
          vetoed = last_where (\<lambda>action. a_type action = ''vetoed'') actions;
          house_override_vote = last_where (vote_in ''vote'' ''h'' True) actions;
          senate_override_vote = last_where (vote_in ''vote'' ''s'' True) actions;
          enacted = last_where (\<lambda>action. a_type action = ''enacted'') actions;
          topresident = last_where (\<lambda>action. a_type action = ''topresident'') actions
      in \<lparr>h_active = (activation \<noteq> NoActivation),
          h_active_at = (case activation of Activation action \<Rightarrow> Some (acted_at action) | _ \<Rightarrow> None),
          h_house_passage_result = result_of house_vote,
          h_house_passage_result_at = time_of house_vote,
          h_senate_passage_result = result_of senate_vote,
          h_senate_passage_result_at = time_of senate_vote,
          h_senate_cloture_result = result_of senate_cloture,
          h_senate_cloture_result_at = time_of senate_cloture,
          h_vetoed = (vetoed \<noteq> None),
          h_vetoed_at = time_of vetoed,
          h_house_override_result = result_of house_override_vote,
          h_house_override_result_at = time_of house_override_vote,
          h_senate_override_result = result_of senate_override_vote,
          h_senate_override_result_at = time_of senate_override_vote,
          h_enacted = (enacted \<noteq> None),
          h_enacted_at = time_of enacted,
          h_awaiting_signature = (topresident \<noteq> None \<and> vetoed = None \<and> enacted = None),
          h_awaiting_signature_since =
            (if topresident \<noteq> None \<and> vetoed = None \<and> enacted = None then time_of topresident
             else None)\<rparr>)"

subsection \<open>\<^verbatim>\<open>transformGovInfoBill\<close>\<close>

text \<open>
  The input is the bill node after \<^verbatim>\<open>transformNode\<close>, and the output the record
  \<^verbatim>\<open>bill_data\<close>, both with the fields that depend on the bill's identity, titles and
  actions; the sponsors, the summary, the subjects and the related bills are computed
  from other nodes and are left out. The fields are computed in the order of the
  program, so the first throw is the one that the program makes.
\<close>

definition BULKDATA_BASE_URL :: string where
  "BULKDATA_BASE_URL = ''https://www.govinfo.gov/'' @ ''bulkdata/''"

definition billstatus_url_for :: "string \<Rightarrow> error + string" where
  "billstatus_url_for bill_id =
     (case split_bill_id bill_id of
        Inl e \<Rightarrow> Inl e
      | Inr ids \<Rightarrow>
          Inr (BULKDATA_BASE_URL @ ''BILLSTATUS/'' @ p_congress ids @ ''/'' @ p_bill_type ids
               @ ''/BILLSTATUS-'' @ p_congress ids @ p_bill_type ids @ p_bill_number ids
               @ ''.xml''))"

record bill_dict =
  in_billType :: "string option"
  in_billNumber :: "string option"
  in_congress :: "string option"
  in_introducedDate :: "string option"
  in_title :: "string option"
  in_titles :: "title_item list"
  in_actions :: "raw_action list"

record bill_data =
  out_bill_id :: string
  out_bill_type :: string
  out_number :: "string option"
  out_congress :: "string option"
  out_url :: string
  out_introduced_at :: "string option"
  out_actions :: "action_dict list"
  out_history :: history
  out_status :: "string option"
  out_status_at :: "string option"
  out_titles :: "title_dict list"
  out_official_title :: "string option"
  out_short_title :: "string option"
  out_popular_title :: "string option"

definition transformGovInfoBill ::
  "(string \<Rightarrow> string option) \<Rightarrow> bill_dict \<Rightarrow> error + bill_data" where
  "transformGovInfoBill toISOString bill =
     (case in_billType bill of
        None \<Rightarrow> Inl TypeError
      | Some billType \<Rightarrow>
          (let bill_id = build_bill_id (toLowerCase billType) (js_string (in_billNumber bill))
                           (js_string (in_congress bill))
           in case titles_for (in_titles bill) of
                Inl e \<Rightarrow> Inl e
              | Inr titles \<Rightarrow>
                  (case actions_for toISOString (in_actions bill) bill_id
                          (current_title_for titles ''official'') of
                     Inl e \<Rightarrow> Inl e
                   | Inr classified \<Rightarrow>
                       (case latest_status classified (in_introducedDate bill) of
                          (status, status_date, actions) \<Rightarrow>
                            (case billstatus_url_for bill_id of
                               Inl e \<Rightarrow> Inl e
                             | Inr url \<Rightarrow>
                                 Inr \<lparr>out_bill_id = bill_id,
                                      out_bill_type = toLowerCase billType,
                                      out_number = in_billNumber bill,
                                      out_congress = in_congress bill,
                                      out_url = url,
                                      out_introduced_at = in_introducedDate bill,
                                      out_actions = actions,
                                      out_history = history_from_actions actions,
                                      out_status = status,
                                      out_status_at = status_date,
                                      out_titles = titles,
                                      out_official_title = in_title bill,
                                      out_short_title = current_title_for titles ''short'',
                                      out_popular_title =
                                        current_title_for titles ''popular''\<rparr>)))))"

section \<open>Notions used to state the properties\<close>

text \<open>
  The texts that the pattern \<^verbatim>\<open>^[a-z]+\d+-\d+$\<close> describes, said without the
  matcher: a non-empty run of lower-case letters, a non-empty run of digits, a hyphen
  and a non-empty run of digits.
\<close>

definition is_lower :: "char \<Rightarrow> bool" where
  "is_lower x = (x \<in> set lower_letters)"

definition is_digit :: "char \<Rightarrow> bool" where
  "is_digit x = (x \<in> set digits)"

definition bill_id_shape :: "string \<Rightarrow> bool" where
  "bill_id_shape b =
     (\<exists>t n c. b = t @ n @ ''-'' @ c
        \<and> t \<noteq> [] \<and> set t \<subseteq> set lower_letters
        \<and> n \<noteq> [] \<and> set n \<subseteq> set digits
        \<and> c \<noteq> [] \<and> set c \<subseteq> set digits)"

subsection \<open>Worked examples\<close>

text \<open>
  The conversion of the dates of the examples. A text with a date only is read as
  midnight UTC, whatever the time zone of the host, so these are the values of
  \<^verbatim>\<open>new Date(s).toISOString()\<close> on them; every other text is taken as not a date.
\<close>

definition example_dates :: "string \<Rightarrow> string option" where
  "example_dates s =
     (if s \<in> set [''2019-01-03'', ''2019-03-05'', ''2019-04-09'', ''2019-06-20'']
      then Some (s @ ''T00:00:00.000Z'') else None)"

definition example_action :: "string \<Rightarrow> string \<Rightarrow> string \<Rightarrow> raw_action" where
  "example_action system date_text action_text =
     \<lparr>actionDate = Some date_text, actionTime = None, actionCode = None,
      actionText = Some action_text, sourceSystem = Some \<lparr>ss_code = Some system\<rparr>\<rparr>"

definition example_bill :: "raw_action list \<Rightarrow> bill_dict" where
  "example_bill actions =
     \<lparr>in_billType = Some ''HR'', in_billNumber = Some ''1'', in_congress = Some ''116'',
      in_introducedDate = Some ''2019-01-03'', in_title = Some ''A bill to do something.'',
      in_titles = [\<lparr>ti_titleType = Some ''Official Title as Introduced'',
                    ti_title = Some ''A bill to do something.''\<rparr>],
      in_actions = actions\<rparr>"

definition classified_example ::
  "string \<Rightarrow> string \<Rightarrow> action_info \<Rightarrow> action_dict" where
  "classified_example date_text action_text info =
     \<lparr>acted_at = date_text @ ''T00:00:00.000Z'', action_code = None, a_text = action_text,
      a_status = None, a_info = info\<rparr>"

definition example_record :: "action_dict list \<Rightarrow> history \<Rightarrow> string option \<Rightarrow> string option
    \<Rightarrow> bill_data" where
  "example_record actions summary status status_at =
     \<lparr>out_bill_id = ''hr1-116'', out_bill_type = ''hr'', out_number = Some ''1'',
      out_congress = Some ''116'',
      out_url = ''https://www.govinfo.gov/bulkdata/BILLSTATUS/116/hr/BILLSTATUS-116hr1.xml'',
      out_introduced_at = Some ''2019-01-03'', out_actions = actions, out_history = summary,
      out_status = status, out_status_at = status_at,
      out_titles = [\<lparr>t_title = Some ''A bill to do something.'', t_is_for_portion = False,
                     t_as = Some ''introduced'', t_type = ''official''\<rparr>],
      out_official_title = Some ''A bill to do something.'', out_short_title = None,
      out_popular_title = None\<rparr>"

definition no_milestones :: history where
  "no_milestones =
     \<lparr>h_active = False, h_active_at = None,
      h_house_passage_result = None, h_house_passage_result_at = None,
      h_senate_passage_result = None, h_senate_passage_result_at = None,
      h_senate_cloture_result = None, h_senate_cloture_result_at = None,
      h_vetoed = False, h_vetoed_at = None,
      h_house_override_result = None, h_house_override_result_at = None,
      h_senate_override_result = None, h_senate_override_result_at = None,
      h_enacted = False, h_enacted_at = None,
      h_awaiting_signature = False, h_awaiting_signature_since = None\<rparr>"

text \<open>
  Scenario B of the specification: a bill \<^verbatim>\<open>hr\<close> that is referred, reported, passed
  by the House by voice vote and passed by the Senate without amendment. The document
  lists the newest action first.
\<close>

definition referral_text :: string where
  "referral_text = ''Referred to the House Committee on the Judiciary.''"

definition report_text :: string where
  "report_text = ''Committee on the Judiciary. Reported by Senator Graham without amendment. Without written report.''"

definition house_passage_text :: string where
  "house_passage_text = ''On passage Passed by voice vote.''"

definition senate_passage_text :: string where
  "senate_passage_text = ''Passed Senate without amendment by Unanimous Consent.''"

definition scenario_b :: bill_dict where
  "scenario_b = example_bill
     [example_action ''2'' ''2019-06-20'' senate_passage_text,
      example_action ''2'' ''2019-04-09'' house_passage_text,
      example_action ''2'' ''2019-03-05'' report_text,
      example_action ''2'' ''2019-01-03'' referral_text]"

definition scenario_b_classified :: "action_dict list" where
  "scenario_b_classified =
     [classified_example ''2019-01-03'' referral_text (plain_action\<lparr>i_type := ''referral''\<rparr>),
      classified_example ''2019-03-05'' report_text
        (plain_action\<lparr>i_type := ''reported'', i_committee := Some ''the Judiciary''\<rparr>),
      classified_example ''2019-04-09'' house_passage_text
        (plain_action\<lparr>i_type := ''vote'', i_vote_type := Some ''vote'',
           i_how := Some ''by voice vote'', i_where := Some ''h'', i_result := Some ''pass''\<rparr>),
      classified_example ''2019-06-20'' senate_passage_text
        (plain_action\<lparr>i_type := ''vote'', i_vote_type := Some ''vote2'',
           i_how := Some ''by Unanimous Consent'', i_where := Some ''s'',
           i_result := Some ''pass''\<rparr>)]"

text \<open>Scenario A of the specification: a bill \<^verbatim>\<open>hr\<close> whose only action is its introduction.\<close>

definition introduction_text :: string where
  "introduction_text = ''Introduced in House''"

definition scenario_a :: bill_dict where
  "scenario_a = example_bill [example_action ''2'' ''2019-01-03'' introduction_text]"

text \<open>
  The activation example of the specification: a referral, a calendar placement, the
  sponsor's introductory remarks and then a substantive action, here a House vote.
\<close>

definition calendar_text :: string where
  "calendar_text = ''Placed on the Union Calendar, Calendar No. 12.''"

definition remarks_text :: string where
  "remarks_text = ''Sponsor introductory remarks on measure. (CR H1234)''"

definition activation_example :: "action_dict list" where
  "activation_example =
     [classified_example ''2019-01-03'' referral_text (plain_action\<lparr>i_type := ''referral''\<rparr>),
      classified_example ''2019-03-05'' calendar_text (plain_action\<lparr>i_type := ''calendar''\<rparr>),
      classified_example ''2019-04-09'' remarks_text plain_action,
      classified_example ''2019-06-20'' house_passage_text
        (plain_action\<lparr>i_type := ''vote'', i_vote_type := Some ''vote'',
           i_how := Some ''by voice vote'', i_where := Some ''h'', i_result := Some ''pass''\<rparr>)]"

text \<open>Scenario C of the specification: the citation of a public law.\<close>

definition law_text :: string where
  "law_text = ''Became Public Law No: 116-123.''"

subsection \<open>The title qualifier as the specification words it\<close>

text \<open>
  Section 4.4 of the specification: when the qualifier ends with the phrase
  \<open>portions_phrase\<close> the flag is set and that suffix is stripped; a trailing colon is
  stripped; the remainder is lower-cased.
\<close>

definition strip_trailing :: "string \<Rightarrow> string \<Rightarrow> string" where
  "strip_trailing p s = (if suffix p s then take (length s - length p) s else s)"

definition spec_title_state :: "string \<Rightarrow> bool \<times> string" where
  "spec_title_state qualifier =
     (suffix portions_phrase qualifier,
      toLowerCase (strip_trailing '':'' (strip_trailing portions_phrase qualifier)))"

text \<open>
  The same with the colon removed wherever it stands, for the qualifiers in which the
  phrase occurs nowhere before its final occurrence and which have at most one colon.
\<close>

definition remove_colons :: "string \<Rightarrow> string" where
  "remove_colons s = filter (\<lambda>c. c \<noteq> CHR '':'') s"

definition colons :: "string \<Rightarrow> nat" where
  "colons s = length (filter (\<lambda>c. c = CHR '':'') s)"

definition phrase_only_final :: "string \<Rightarrow> bool" where
  "phrase_only_final qualifier =
     (suffix portions_phrase qualifier \<longrightarrow>
        index_of qualifier portions_phrase = Some (length qualifier - length portions_phrase))"

definition colon_free_title_state :: "string \<Rightarrow> bool \<times> string" where
  "colon_free_title_state qualifier =
     (suffix portions_phrase qualifier,
      toLowerCase (remove_colons (strip_trailing portions_phrase qualifier)))"

definition colon_example :: title_item where
  "colon_example =
     \<lparr>ti_titleType = Some ''Short Titles as Introduced: Title I'',
      ti_title = Some ''Example Act''\<rparr>"

text \<open>The kind of a label: the part before the separator, or the whole label.\<close>

definition label_kind :: "string \<Rightarrow> string" where
  "label_kind label = (case title_splits label of [kind, qualifier] \<Rightarrow> kind | _ \<Rightarrow> label)"

definition conference_label :: string where
  "conference_label = ''Short Titles on Conference report for portions of this bill''"

subsection \<open>Which actions the filter drops\<close>

text \<open>
  What \<open>keep_action\<close> compares, said for a whole list: an action has a text when its
  text is neither missing nor empty; the baseline of an action is the nearest action
  before it, in the order of the document, that has a text; an action repeats its
  baseline when it comes from source system 9, carries the same date, the times agree
  or one is missing, and its comparison text ends with the comparison text of the
  baseline. The comparison text is the one that the code computes: the text that
  \<^verbatim>\<open>action_for\<close> returns, without its first space.
\<close>

definition source_code :: "raw_action \<Rightarrow> string option" where
  "source_code item = (case sourceSystem item of None \<Rightarrow> None | Some system \<Rightarrow> ss_code system)"

definition item_text :: "raw_action \<Rightarrow> string" where
  "item_text item = (case actionText item of None \<Rightarrow> '''' | Some t \<Rightarrow> t)"

definition has_text :: "raw_action \<Rightarrow> bool" where
  "has_text item = truthy (actionText item)"

definition times_agree :: "raw_action \<Rightarrow> raw_action \<Rightarrow> bool" where
  "times_agree item earlier =
     (actionTime item = actionTime earlier \<or> \<not> truthy (actionTime item)
      \<or> \<not> truthy (actionTime earlier))"

definition comparison_text :: "raw_action \<Rightarrow> string" where
  "comparison_text item = replace_first (strip_links (item_text item)) '' '' ''''"


definition baseline :: "raw_action list \<Rightarrow> raw_action option" where
  "baseline earlier = last_where has_text earlier"


text \<open>
  The rule as section 4.2 of the specification words it: the action is compared with
  the action immediately before it; the texts are compared with the references and all
  white space removed. A reference is the markup of a link, the pattern
  \<^verbatim>\<open></?[Aa]( \S.*?)?>\<close> that \<^verbatim>\<open>action_for\<close> means to strip.
\<close>

definition strip_whitespace :: "string \<Rightarrow> string" where
  "strip_whitespace s = filter (\<lambda>c. c \<notin> set white_space) s"

definition reference_re :: regex where
  "reference_re = seqs [Lit ''<'', Opt (Lit ''/''), OneOf ''Aa'',
                        Opt (Grp 1 (seqs [Lit '' '', NoneOf white_space, StarLazy AnyCh])),
                        Lit ''>'']"

definition strip_references :: "string \<Rightarrow> string" where
  "strip_references t = remove_all False reference_re 0 0 t"

definition stripped_text :: "raw_action \<Rightarrow> string" where
  "stripped_text item = strip_whitespace (strip_references (item_text item))"

definition spec_repeats :: "raw_action \<Rightarrow> raw_action \<Rightarrow> bool" where
  "spec_repeats earlier item =
     (source_code item = Some ''9'' \<and> actionDate item = actionDate earlier
      \<and> times_agree item earlier
      \<and> suffix (stripped_text earlier) (stripped_text item))"



text \<open>
  The same rule with the baseline of the code in the place of the action immediately
  before: the nearest action before it that has a text.
\<close>

definition baseline_dropped :: "raw_action list \<Rightarrow> nat \<Rightarrow> bool" where
  "baseline_dropped items i =
     (item_text (items ! i) = ''''
      \<or> (case baseline (take i items) of
            None \<Rightarrow> False
          | Some b \<Rightarrow> spec_repeats b (items ! i)))"

text \<open>
  The lists on which the comparison of the code and the comparison of the stripped
  texts give the same answer, for every action of source system 9 and its baseline of
  the same date and time. The code removes the first space of a text only, and a
  reference only after the letter \<^verbatim>\<open>r\<close>; on other lists the two comparisons can
  differ.
\<close>

definition comparison_unaffected :: "raw_action list \<Rightarrow> bool" where
  "comparison_unaffected items =
     list_all
       (\<lambda>i. case baseline (take i items) of
              None \<Rightarrow> True
            | Some b \<Rightarrow>
                source_code (items ! i) = Some ''9'' \<and> actionDate (items ! i) = actionDate b
                \<and> times_agree (items ! i) b \<longrightarrow>
                suffix (comparison_text b) (comparison_text (items ! i)) =
                suffix (stripped_text b) (stripped_text (items ! i)))
       [0..<length items]"






text \<open>
  Two actions of one day whose texts differ in more than their first space: the second
  is the Library of Congress's copy, with a prefix.
\<close>

definition read_twice_first :: raw_action where
  "read_twice_first = example_action ''0'' ''2019-03-05'' ''Read twice.''"

definition read_twice_copy :: raw_action where
  "read_twice_copy = example_action ''9'' ''2019-03-05'' ''Introduced in Senate. Read twice.''"

section \<open>The code returns what the table says\<close>

lemmas table_defs = new_status_after_vote_def vote_outcome_rows_def by_chamber_def
  proposes_constamend_def non_amended_branch_def startsWith_def

lemma lookup_vote:
  "ch = ''h'' \<or> ch = ''s'' \<Longrightarrow>
   new_status_after_vote ''vote'' p ch bt su am title prev =
   table_lookup vote_outcome_rows
     \<lparr>vc_voteType = ''vote'', vc_passed = p, vc_chamber = ch, vc_billType = bt,
      vc_suspension = su, vc_amended = am, vc_officialTitle = title, vc_prevStatus = prev\<rparr>"
  by (elim disjE; simp add: table_defs)

lemma lookup_vote2:
  "ch = ''h'' \<or> ch = ''s'' \<Longrightarrow>
   new_status_after_vote ''vote2'' p ch bt su am title prev =
   table_lookup vote_outcome_rows
     \<lparr>vc_voteType = ''vote2'', vc_passed = p, vc_chamber = ch, vc_billType = bt,
      vc_suspension = su, vc_amended = am, vc_officialTitle = title, vc_prevStatus = prev\<rparr>"
  by (elim disjE; simp add: table_defs)

lemma lookup_pingpong:
  "ch = ''h'' \<or> ch = ''s'' \<Longrightarrow>
   new_status_after_vote ''pingpong'' p ch bt su am title prev =
   table_lookup vote_outcome_rows
     \<lparr>vc_voteType = ''pingpong'', vc_passed = p, vc_chamber = ch, vc_billType = bt,
      vc_suspension = su, vc_amended = am, vc_officialTitle = title, vc_prevStatus = prev\<rparr>"
  by (elim disjE; simp add: table_defs)

lemma lookup_cloture:
  "ch = ''h'' \<or> ch = ''s'' \<Longrightarrow>
   new_status_after_vote ''cloture'' p ch bt su am title prev =
   table_lookup vote_outcome_rows
     \<lparr>vc_voteType = ''cloture'', vc_passed = p, vc_chamber = ch, vc_billType = bt,
      vc_suspension = su, vc_amended = am, vc_officialTitle = title, vc_prevStatus = prev\<rparr>"
  by (elim disjE; simp add: table_defs)

lemma lookup_override:
  "ch = ''h'' \<or> ch = ''s'' \<Longrightarrow>
   new_status_after_vote ''override'' p ch bt su am title prev =
   table_lookup vote_outcome_rows
     \<lparr>vc_voteType = ''override'', vc_passed = p, vc_chamber = ch, vc_billType = bt,
      vc_suspension = su, vc_amended = am, vc_officialTitle = title, vc_prevStatus = prev\<rparr>"
  by (elim disjE; simp add: table_defs)

lemma lookup_conference:
  "ch = ''h'' \<or> ch = ''s'' \<Longrightarrow>
   new_status_after_vote ''conference'' p ch bt su am title prev =
   table_lookup vote_outcome_rows
     \<lparr>vc_voteType = ''conference'', vc_passed = p, vc_chamber = ch, vc_billType = bt,
      vc_suspension = su, vc_amended = am, vc_officialTitle = title, vc_prevStatus = prev\<rparr>"
  by (elim disjE; simp add: table_defs)

lemma no_change_cases:
  "new_status_after_vote ''cloture'' True ch bt su am title prev = None"
  "new_status_after_vote ''conference'' False ch bt su am title prev = None"
  by (simp_all add: new_status_after_vote_def)

lemma constamend_only:
  "new_status_after_vote vt p ch bt su am title prev = Some ''PASSED:CONSTAMEND'' \<Longrightarrow>
   (bt = ''hjres'' \<or> bt = ''sjres'') \<and> prefix constamend_title title"
  by (simp add: new_status_after_vote_def startsWith_def split: if_splits)

lemma conference_resolution_only:
  "new_status_after_vote ''conference'' p ch bt su am title prev = Some st \<Longrightarrow>
   st = ''PASSED:CONSTAMEND'' \<or> st = ''PASSED:CONCURRENTRES'' \<or> st = ''PASSED:BILL'' \<Longrightarrow>
   p \<and> prefix ''CONFERENCE:PASSED:'' prev"
  by (elim disjE; simp add: new_status_after_vote_def startsWith_def split: if_splits)

text \<open>
  Claim C1. For every vote type among vote, vote2, pingpong, cloture, override and
  conference, either outcome, either chamber, each of the eight bill types, and any
  suspension flag, amended flag, official title and prior status,
  \<open>new_status_after_vote\<close> returns the status that the first applicable row of the
  specification's table gives. A passed cloture vote and a failed conference vote give
  no new status; \<open>PASSED:CONSTAMEND\<close> is returned only for a joint resolution whose
  title starts with the constitutional-amendment phrase; and a conference vote resolves
  to one of the \<open>PASSED\<close> statuses only when it passed and the prior status starts with
  \<open>CONFERENCE:PASSED:\<close>.
\<close>

theorem new_status_after_vote_follows_table:
  assumes "vt \<in> set VOTE_TYPES" and "ch \<in> {''h'', ''s''}" and "bt \<in> set BILL_TYPES"
  shows "new_status_after_vote vt p ch bt su am title prev =
           table_lookup vote_outcome_rows
             \<lparr>vc_voteType = vt, vc_passed = p, vc_chamber = ch, vc_billType = bt,
              vc_suspension = su, vc_amended = am, vc_officialTitle = title,
              vc_prevStatus = prev\<rparr>
         \<and> (vt = ''cloture'' \<and> p \<longrightarrow>
              new_status_after_vote vt p ch bt su am title prev = None)
         \<and> (vt = ''conference'' \<and> \<not> p \<longrightarrow>
              new_status_after_vote vt p ch bt su am title prev = None)
         \<and> (new_status_after_vote vt p ch bt su am title prev = Some ''PASSED:CONSTAMEND'' \<longrightarrow>
              bt \<in> {''hjres'', ''sjres''} \<and> prefix constamend_title title)
         \<and> (vt = ''conference'' \<and>
              new_status_after_vote vt p ch bt su am title prev \<in>
                {Some ''PASSED:CONSTAMEND'', Some ''PASSED:CONCURRENTRES'', Some ''PASSED:BILL''} \<longrightarrow>
              p \<and> prefix ''CONFERENCE:PASSED:'' prev)"
proof -
  have ch: "ch = ''h'' \<or> ch = ''s''"
    using assms(2) by simp
  from assms(1) have "vt = ''vote'' \<or> vt = ''vote2'' \<or> vt = ''pingpong''
      \<or> vt = ''cloture'' \<or> vt = ''override'' \<or> vt = ''conference''"
    by (simp add: VOTE_TYPES_def)
  then have table: "new_status_after_vote vt p ch bt su am title prev =
           table_lookup vote_outcome_rows
             \<lparr>vc_voteType = vt, vc_passed = p, vc_chamber = ch, vc_billType = bt,
              vc_suspension = su, vc_amended = am, vc_officialTitle = title,
              vc_prevStatus = prev\<rparr>"
    by (elim disjE)
      (simp_all only: lookup_vote [OF ch] lookup_vote2 [OF ch] lookup_pingpong [OF ch]
        lookup_cloture [OF ch] lookup_override [OF ch] lookup_conference [OF ch])
  have cloture: "vt = ''cloture'' \<and> p \<longrightarrow>
      new_status_after_vote vt p ch bt su am title prev = None"
    by (clarsimp simp: no_change_cases)
  have conference: "vt = ''conference'' \<and> \<not> p \<longrightarrow>
      new_status_after_vote vt p ch bt su am title prev = None"
    by (clarsimp simp: no_change_cases)
  have constamend: "new_status_after_vote vt p ch bt su am title prev = Some ''PASSED:CONSTAMEND'' \<longrightarrow>
      bt \<in> {''hjres'', ''sjres''} \<and> prefix constamend_title title"
    using constamend_only [of vt p ch bt su am title prev] by simp
  have resolution: "vt = ''conference'' \<and>
      new_status_after_vote vt p ch bt su am title prev \<in>
        {Some ''PASSED:CONSTAMEND'', Some ''PASSED:CONCURRENTRES'', Some ''PASSED:BILL''} \<longrightarrow>
      p \<and> prefix ''CONFERENCE:PASSED:'' prev"
    using conference_resolution_only [of p ch bt su am title prev] by auto
  from table cloture conference constamend resolution show ?thesis
    by (intro conjI)
qed

theorem new_status_after_vote_follows_table_witness:
  "''conference'' \<in> set VOTE_TYPES \<and> ''s'' \<in> {''h'', ''s''} \<and> ''hjres'' \<in> set BILL_TYPES
   \<and> new_status_after_vote ''conference'' True ''s'' ''hjres'' False False
        (constamend_title @ '' relating to terms of office.'') ''CONFERENCE:PASSED:HOUSE''
      = Some ''PASSED:CONSTAMEND''
   \<and> table_lookup vote_outcome_rows
        \<lparr>vc_voteType = ''conference'', vc_passed = True, vc_chamber = ''s'',
         vc_billType = ''hjres'', vc_suspension = False, vc_amended = False,
         vc_officialTitle = constamend_title @ '' relating to terms of office.'',
         vc_prevStatus = ''CONFERENCE:PASSED:HOUSE''\<rparr>
      = Some ''PASSED:CONSTAMEND''"
proof -
  have vt: "''conference'' \<in> set VOTE_TYPES"
    by (simp add: VOTE_TYPES_def)
  have ch: "''s'' \<in> {''h'', ''s''}"
    by simp
  have bt: "''hjres'' \<in> set BILL_TYPES"
    by (simp add: BILL_TYPES_def)
  have code: "new_status_after_vote ''conference'' True ''s'' ''hjres'' False False
        (constamend_title @ '' relating to terms of office.'') ''CONFERENCE:PASSED:HOUSE''
      = Some ''PASSED:CONSTAMEND''"
    by (simp add: new_status_after_vote_def startsWith_def)
  from new_status_after_vote_follows_table [OF vt ch bt, of True False False
      "constamend_title @ '' relating to terms of office.''" "''CONFERENCE:PASSED:HOUSE''"]
  have "new_status_after_vote ''conference'' True ''s'' ''hjres'' False False
        (constamend_title @ '' relating to terms of office.'') ''CONFERENCE:PASSED:HOUSE''
      = table_lookup vote_outcome_rows
        \<lparr>vc_voteType = ''conference'', vc_passed = True, vc_chamber = ''s'',
         vc_billType = ''hjres'', vc_suspension = False, vc_amended = False,
         vc_officialTitle = constamend_title @ '' relating to terms of office.'',
         vc_prevStatus = ''CONFERENCE:PASSED:HOUSE''\<rparr>"
    by blast
  with vt ch bt code show ?thesis
    by simp
qed

section \<open>Bill identifiers: the pattern and the round trip\<close>

lemma in_class_exact: "in_class False cls x = (x \<in> set cls)"
  by (auto simp: in_class_def ceq_def list_ex_iff)

lemma rev_upt_Suc: "rev [0..<Suc (Suc n)] = map Suc (rev [0..<Suc n]) @ [0]"
proof -
  have "[0..<Suc (Suc n)] = 0 # map Suc [0..<Suc n]"
    by (simp only: map_Suc_upt upt_conv_Cons [of 0 "Suc (Suc n)"])
  then show ?thesis
    by (simp only: rev.simps rev_map)
qed

lemma star_class:
  "rmatch False (Star (OneOf cls)) (p, s, c) =
   map (\<lambda>k. (p + k, drop k s, c)) (rev [0..<Suc (length (takeWhile (\<lambda>x. x \<in> set cls) s))])"
proof (induction s arbitrary: p)
  case Nil
  show ?case
    by (simp add: rmatch.simps)
next
  case (Cons x xs)
  show ?case
  proof (cases "x \<in> set cls")
    case True
    have "rmatch False (Star (OneOf cls)) (p, x # xs, c) =
          rmatch False (Star (OneOf cls)) (Suc p, xs, c) @ [(p, x # xs, c)]"
      using True by (simp add: rmatch.simps(9) [of False "OneOf cls" "(p, x # xs, c)"]
          rmatch.simps(3) in_class_exact advanced_def)
    then show ?thesis
      using True by (simp add: Cons.IH rev_upt_Suc del: upt_Suc)
  next
    case False
    then show ?thesis
      by (simp add: rmatch.simps(9) [of False "OneOf cls" "(p, x # xs, c)"]
          rmatch.simps(3) in_class_exact)
  qed
qed

lemma plus_class:
  "rmatch False (Plus (OneOf cls)) (p, s, c) =
   map (\<lambda>k. (p + k, drop k s, c)) (rev [1..<Suc (length (takeWhile (\<lambda>x. x \<in> set cls) s))])"
proof (cases s)
  case Nil
  then show ?thesis
    by (simp add: Plus_def rmatch.simps(7) rmatch.simps(3))
next
  case (Cons x xs)
  show ?thesis
  proof (cases "x \<in> set cls")
    case True
    have "[1..<Suc (Suc n)] = map Suc [0..<Suc n]" for n
      by (simp only: map_Suc_upt One_nat_def)
    then show ?thesis
      using True Cons
      by (simp add: Plus_def rmatch.simps(7) rmatch.simps(3) in_class_exact star_class
          rev_map comp_def del: upt_Suc)
  next
    case False
    then show ?thesis
      using Cons by (simp add: Plus_def rmatch.simps(7) rmatch.simps(3) in_class_exact)
  qed
qed

lemma grp_plus_class:
  "rmatch False (Grp g (Plus (OneOf cls))) (p, s, c) =
   map (\<lambda>k. (p + k, drop k s, (g, take k s) # c))
     (rev [1..<Suc (length (takeWhile (\<lambda>x. x \<in> set cls) s))])"
  by (simp add: rmatch.simps(12) plus_class comp_def)

lemma concat_map_empty: "(\<And>k. k \<in> set ks \<Longrightarrow> f k = []) \<Longrightarrow> concat (map f ks) = []"
  by (induction ks) auto

lemma maximal_only:
  assumes "\<And>k. 1 \<le> k \<Longrightarrow> k < n \<Longrightarrow> f k = []"
  shows "concat (map f (rev [1..<Suc n])) = (if n = 0 then [] else f n)"
proof (cases n)
  case 0
  then show ?thesis by simp
next
  case (Suc m)
  have "concat (map f (rev [1..<Suc m])) = []"
    using assms Suc by (intro concat_map_empty) auto
  then show ?thesis
    using Suc by simp
qed

lemma takeWhile_hd:
  "k < length (takeWhile P s) \<Longrightarrow> \<exists>x xs. drop k s = x # xs \<and> P x"
proof -
  assume k: "k < length (takeWhile P s)"
  then have "k < length s"
    using length_takeWhile_le [of P s] by simp
  then have "drop k s = s ! k # drop (Suc k) s"
    by (simp add: Cons_nth_drop_Suc)
  moreover have "P (s ! k)"
    using k by (metis nth_mem set_takeWhileD takeWhile_nth)
  ultimately show ?thesis by blast
qed


lemma grp_plus_then:
  assumes fails: "\<And>x xs q c'. x \<in> set cls \<Longrightarrow> rmatch False r (q, x # xs, c') = []"
  shows "rmatch False (Seq (Grp g (Plus (OneOf cls))) r) (p, s, c) =
         (if takeWhile (\<lambda>x. x \<in> set cls) s = [] then []
          else rmatch False r (p + length (takeWhile (\<lambda>x. x \<in> set cls) s),
                 dropWhile (\<lambda>x. x \<in> set cls) s,
                 (g, takeWhile (\<lambda>x. x \<in> set cls) s) # c))"
proof -
  let ?P = "\<lambda>x. x \<in> set cls"
  let ?n = "length (takeWhile ?P s)"
  let ?f = "\<lambda>k. rmatch False r (p + k, drop k s, (g, take k s) # c)"
  have "?f k = []" if "k < ?n" for k
  proof -
    from takeWhile_hd [OF that] obtain x xs where "drop k s = x # xs" and "x \<in> set cls"
      by blast
    then show ?thesis
      by (simp add: fails)
  qed
  then have max: "concat (map ?f (rev [1..<Suc ?n])) = (if ?n = 0 then [] else ?f ?n)"
    by (intro maximal_only) simp
  have parts: "drop ?n s = dropWhile ?P s" "take ?n s = takeWhile ?P s"
    by (rule dropWhile_eq_drop [symmetric], rule takeWhile_eq_take [symmetric])
  have "rmatch False (Seq (Grp g (Plus (OneOf cls))) r) (p, s, c) =
      concat (map ?f (rev [1..<Suc ?n]))"
    by (simp add: rmatch.simps(7) grp_plus_class comp_def del: upt_Suc)
  also have "\<dots> = (if ?n = 0 then [] else ?f ?n)"
    by (rule max)
  also have "\<dots> = (if takeWhile ?P s = [] then []
      else rmatch False r (p + ?n, dropWhile ?P s, (g, takeWhile ?P s) # c))"
    by (simp only: parts length_0_conv)
  finally show ?thesis .
qed

lemma eol_fails: "rmatch False Eol (q, x # xs, c') = []"
  by (simp add: rmatch.simps(6))

lemma dash_fails: "x \<in> set digits \<Longrightarrow> rmatch False (Seq (Lit ''-'') r) (q, x # xs, c') = []"
  by (auto simp: rmatch.simps(7) rmatch.simps(1) ceq_def digits_def)

lemma lower_not_digit: "x \<in> set lower_letters \<Longrightarrow> x \<notin> set digits"
  by (auto simp: lower_letters_def digits_def)

lemma digits_fail:
  "x \<in> set lower_letters \<Longrightarrow> rmatch False (Seq (Grp g (Plus digit)) r) (q, x # xs, c') = []"
  by (simp add: rmatch.simps(7) digit_def grp_plus_class lower_not_digit)

lemma dash_step:
  "rmatch False (Seq (Lit ''-'') r) (p, s, c) =
   (case s of [] \<Rightarrow> [] | x # xs \<Rightarrow> if x = CHR ''-'' then rmatch False r (Suc p, xs, c) else [])"
  by (cases s) (auto simp: rmatch.simps(7) rmatch.simps(1) ceq_def)

lemma eol_step: "rmatch False Eol (p, s, c) = (if s = [] then [(p, s, c)] else [])"
  by (simp add: rmatch.simps(6))

lemma bol_later: "search_from ci (Seq Bol r) (Suc p) s = None"
  by (induction s arbitrary: p) (simp_all add: rmatch.simps(7) rmatch.simps(5))

lemma anchored_match:
  "regex_match ci (Seq Bol r) s =
   (case rmatch ci r (0, s, []) of [] \<Rightarrow> None | st # _ \<Rightarrow> Some (match_groups s (0, st)))"
  by (cases s) (simp_all add: regex_match_def rmatch.simps(7) rmatch.simps(5) bol_later
      split: list.splits)

lemma bill_id_match:
  "rmatch False (seqs [Grp 1 (Plus (OneOf lower_letters)), Grp 2 (Plus digit), Lit ''-'',
                      Grp 3 (Plus digit), Eol]) (0, b, []) =
   (let t = takeWhile is_lower b; r1 = dropWhile is_lower b;
        n = takeWhile is_digit r1; r2 = dropWhile is_digit r1
    in if t = [] \<or> n = [] then []
       else (case r2 of
               [] \<Rightarrow> []
             | x # r3 \<Rightarrow>
                 if x = CHR ''-'' \<and> takeWhile is_digit r3 \<noteq> [] \<and> dropWhile is_digit r3 = []
                 then [(length t + length n + 1 + length r3, [], [(3, r3), (2, n), (1, t)])]
                 else []))"
proof -
  have three: "rmatch False (Seq (Grp 3 (Plus digit)) Eol) (p, s, c) =
      (if takeWhile is_digit s \<noteq> [] \<and> dropWhile is_digit s = []
       then [(p + length s, [], (3, s) # c)] else [])" for p s c
  proof -
    have all: "takeWhile P xs = xs" if "\<forall>x\<in>set xs. P x" for P and xs :: string
      using that by (simp add: takeWhile_eq_all_conv)
    show ?thesis
      unfolding digit_def is_digit_def
      by (auto simp: grp_plus_then [OF eol_fails] eol_step all)
  qed
  show ?thesis
    unfolding is_lower_def is_digit_def Let_def seqs.simps
    by (simp add: grp_plus_then [OF digits_fail]
        grp_plus_then [where cls = digits, folded digit_def, OF dash_fails] dash_step
        three [unfolded is_digit_def] del: dropWhile_eq_Nil_conv split: list.splits)
qed


lemma split_bill_id_parts:
  "split_bill_id b =
   (let t = takeWhile is_lower b; r1 = dropWhile is_lower b;
        n = takeWhile is_digit r1; r2 = dropWhile is_digit r1
    in if t \<noteq> [] \<and> n \<noteq> [] \<and> r2 \<noteq> [] \<and> hd r2 = CHR ''-''
          \<and> takeWhile is_digit (tl r2) \<noteq> [] \<and> dropWhile is_digit (tl r2) = []
       then Inr \<lparr>p_bill_number = n, p_bill_type = t, p_congress = tl r2\<rparr>
       else Inl (InvalidBillId b))"
proof -
  have anchored: "bill_id_re = Seq Bol (seqs [Grp 1 (Plus (OneOf lower_letters)),
      Grp 2 (Plus digit), Lit ''-'', Grp 3 (Plus digit), Eol])"
    by (simp add: bill_id_re_def)
  have m: "regex_match False bill_id_re b =
      (case rmatch False (seqs [Grp 1 (Plus (OneOf lower_letters)), Grp 2 (Plus digit),
              Lit ''-'', Grp 3 (Plus digit), Eol]) (0, b, []) of
         [] \<Rightarrow> None
       | st # _ \<Rightarrow> Some (match_groups b (0, st)))"
    by (simp only: anchored anchored_match)
  show ?thesis
    unfolding split_bill_id_def m bill_id_match
    by (cases "dropWhile is_digit (dropWhile is_lower b)")
      (simp_all add: Let_def grp_def del: dropWhile_eq_Nil_conv takeWhile_eq_Nil_iff)
qed

lemma takeWhile_stop:
  "\<forall>x\<in>set xs. P x \<Longrightarrow> ys = [] \<or> \<not> P (hd ys) \<Longrightarrow> takeWhile P (xs @ ys) = xs"
  by (cases ys) (simp_all add: takeWhile_append2)

lemma dropWhile_stop:
  "\<forall>x\<in>set xs. P x \<Longrightarrow> ys = [] \<or> \<not> P (hd ys) \<Longrightarrow> dropWhile P (xs @ ys) = ys"
  by (cases ys) (simp_all add: dropWhile_append2)

lemma split_of_parts:
  assumes "t \<noteq> []" "set t \<subseteq> set lower_letters" "n \<noteq> []" "set n \<subseteq> set digits"
    "c \<noteq> []" "set c \<subseteq> set digits"
  shows "split_bill_id (t @ n @ CHR ''-'' # c) =
         Inr \<lparr>p_bill_number = n, p_bill_type = t, p_congress = c\<rparr>"
proof -
  have t: "\<forall>x\<in>set t. is_lower x" and n: "\<forall>x\<in>set n. is_digit x" and c: "\<forall>x\<in>set c. is_digit x"
    using assms by (auto simp: is_lower_def is_digit_def)
  from assms(3) obtain x n' where xn: "n = x # n'"
    by (cases n) auto
  with n have "\<not> is_lower x"
    using lower_not_digit by (auto simp: is_lower_def is_digit_def)
  then have t1: "takeWhile is_lower (t @ n @ CHR ''-'' # c) = t"
    and t2: "dropWhile is_lower (t @ n @ CHR ''-'' # c) = n @ CHR ''-'' # c"
    using t by (simp_all add: takeWhile_stop dropWhile_stop xn)
  have "\<not> is_digit (CHR ''-'')"
    by (simp add: is_digit_def digits_def)
  then have n1: "takeWhile is_digit (n @ CHR ''-'' # c) = n"
    and n2: "dropWhile is_digit (n @ CHR ''-'' # c) = CHR ''-'' # c"
    using n by (simp_all add: takeWhile_stop dropWhile_stop)
  have c1: "takeWhile is_digit c = c" and c2: "dropWhile is_digit c = []"
    using c by (simp_all add: takeWhile_eq_all_conv)
  show ?thesis
    using assms(1,3,5)
    by (simp add: split_bill_id_parts t1 t2 n1 n2 c1 c2 del: dropWhile_eq_Nil_conv)
qed

lemma parts_of_split:
  assumes "split_bill_id b = Inr r"
  shows "b = p_bill_type r @ p_bill_number r @ ''-'' @ p_congress r
         \<and> p_bill_type r \<noteq> [] \<and> set (p_bill_type r) \<subseteq> set lower_letters
         \<and> p_bill_number r \<noteq> [] \<and> set (p_bill_number r) \<subseteq> set digits
         \<and> p_congress r \<noteq> [] \<and> set (p_congress r) \<subseteq> set digits"
proof -
  let ?t = "takeWhile is_lower b" and ?r1 = "dropWhile is_lower b"
  let ?n = "takeWhile is_digit ?r1" and ?r2 = "dropWhile is_digit ?r1"
  from assms have ok: "?t \<noteq> []" "?n \<noteq> []" "?r2 \<noteq> []" "hd ?r2 = CHR ''-''"
      "takeWhile is_digit (tl ?r2) \<noteq> []" "dropWhile is_digit (tl ?r2) = []"
    and r: "r = \<lparr>p_bill_number = ?n, p_bill_type = ?t, p_congress = tl ?r2\<rparr>"
    by (auto simp: split_bill_id_parts Let_def simp del: dropWhile_eq_Nil_conv takeWhile_eq_Nil_iff
        split: if_splits)
  have "?r2 = hd ?r2 # tl ?r2"
    using ok(3) by (rule hd_Cons_tl [symmetric])
  then have "?r2 = ''-'' @ tl ?r2"
    using ok(4) by simp
  moreover have "b = ?t @ ?r1" and "?r1 = ?n @ ?r2"
    by simp_all
  ultimately have b: "b = ?t @ ?n @ ''-'' @ tl ?r2"
    by metis
  have "set ?t \<subseteq> set lower_letters" "set ?n \<subseteq> set digits"
    by (auto dest: set_takeWhileD simp: is_lower_def is_digit_def)
  moreover have "set (tl ?r2) \<subseteq> set digits"
    using ok(6) by (auto simp: is_digit_def)
  moreover have "tl ?r2 \<noteq> []"
    using ok(5) by auto
  ultimately show ?thesis
    using b ok(1,2) by (simp add: r)
qed

lemma split_iff_shape: "bill_id_shape b \<longleftrightarrow> (\<exists>r. split_bill_id b = Inr r)"
proof
  assume "bill_id_shape b"
  then show "\<exists>r. split_bill_id b = Inr r"
    unfolding bill_id_shape_def using split_of_parts by fastforce
next
  assume "\<exists>r. split_bill_id b = Inr r"
  then obtain r where "split_bill_id b = Inr r" ..
  from parts_of_split [OF this] show "bill_id_shape b"
    unfolding bill_id_shape_def by blast
qed

lemma split_error: "split_bill_id b = Inl e \<Longrightarrow> e = InvalidBillId b"
  by (simp add: split_bill_id_def split: option.splits prod.splits)

lemma bill_types_lower: "bt \<in> set BILL_TYPES \<Longrightarrow> bt \<noteq> [] \<and> set bt \<subseteq> set lower_letters"
  unfolding BILL_TYPES_def lower_letters_def by auto

text \<open>
  Claim C10. \<open>split_bill_id\<close> succeeds exactly on the texts of the shape
  \<^verbatim>\<open>^[a-z]+\d+-\d+$\<close> (lower-case letters, digits, a hyphen, digits, each run
  non-empty, and nothing else) and fails with the invalid-bill-id error on every other
  text; and for a bill type of the enum and a number and a congress that are non-empty
  runs of digits, splitting the identifier that \<open>build_bill_id\<close> builds gives back
  exactly the three components.
\<close>

theorem split_bill_id_pattern_roundtrip:
  "(bill_id_shape b \<longleftrightarrow> (\<exists>r. split_bill_id b = Inr r))
   \<and> (\<not> bill_id_shape b \<longrightarrow> split_bill_id b = Inl (InvalidBillId b))
   \<and> (bt \<in> set BILL_TYPES \<and> n \<noteq> [] \<and> set n \<subseteq> set digits \<and> c \<noteq> [] \<and> set c \<subseteq> set digits \<longrightarrow>
        split_bill_id (build_bill_id bt n c) =
          Inr \<lparr>p_bill_number = n, p_bill_type = bt, p_congress = c\<rparr>)"
proof (intro conjI impI)
  show "bill_id_shape b \<longleftrightarrow> (\<exists>r. split_bill_id b = Inr r)"
    by (rule split_iff_shape)
next
  assume "\<not> bill_id_shape b"
  then have "\<nexists>r. split_bill_id b = Inr r"
    by (simp add: split_iff_shape)
  then obtain e where "split_bill_id b = Inl e"
    by (cases "split_bill_id b") auto
  then show "split_bill_id b = Inl (InvalidBillId b)"
    using split_error by blast
next
  assume "bt \<in> set BILL_TYPES \<and> n \<noteq> [] \<and> set n \<subseteq> set digits \<and> c \<noteq> [] \<and> set c \<subseteq> set digits"
  then show "split_bill_id (build_bill_id bt n c) =
      Inr \<lparr>p_bill_number = n, p_bill_type = bt, p_congress = c\<rparr>"
    using bill_types_lower [of bt] by (simp add: build_bill_id_def split_of_parts)
qed

theorem split_bill_id_pattern_roundtrip_witness:
  "bill_id_shape ''hr1234-116''
   \<and> split_bill_id ''hr1234-116'' =
       Inr \<lparr>p_bill_number = ''1234'', p_bill_type = ''hr'', p_congress = ''116''\<rparr>
   \<and> \<not> bill_id_shape ''HR1234-116''
   \<and> split_bill_id ''HR1234-116'' = Inl (InvalidBillId ''HR1234-116'')
   \<and> ''hr'' \<in> set BILL_TYPES
   \<and> split_bill_id (build_bill_id ''hr'' ''1234'' ''116'') =
       Inr \<lparr>p_bill_number = ''1234'', p_bill_type = ''hr'', p_congress = ''116''\<rparr>"
proof -
  have good: "split_bill_id ''hr1234-116'' =
      Inr \<lparr>p_bill_number = ''1234'', p_bill_type = ''hr'', p_congress = ''116''\<rparr>"
    by code_simp
  have bad: "split_bill_id ''HR1234-116'' = Inl (InvalidBillId ''HR1234-116'')"
    by code_simp
  have hr: "''hr'' \<in> set BILL_TYPES"
    by (simp add: BILL_TYPES_def)
  have digits: "''1234'' \<noteq> [] \<and> set ''1234'' \<subseteq> set digits
      \<and> ''116'' \<noteq> [] \<and> set ''116'' \<subseteq> set digits"
    by (simp add: digits_def)
  note rt = split_bill_id_pattern_roundtrip
  from rt [of "''hr1234-116''"] good have "bill_id_shape ''hr1234-116''"
    by simp
  moreover from rt [of "''HR1234-116''"] bad have "\<not> bill_id_shape ''HR1234-116''"
    by auto
  moreover from rt [of _ "''hr''" "''1234''" "''116''"] hr digits
  have "split_bill_id (build_bill_id ''hr'' ''1234'' ''116'') =
      Inr \<lparr>p_bill_number = ''1234'', p_bill_type = ''hr'', p_congress = ''116''\<rparr>"
    by blast
  ultimately show ?thesis
    using good bad hr by simp
qed

section \<open>The worked examples, evaluated\<close>

lemma scenario_b_actions:
  "actions_for example_dates (in_actions scenario_b) ''hr1-116''
     (Some ''A bill to do something.'') = Inr scenario_b_classified"
  by code_simp

lemma scenario_b_output:
  "transformGovInfoBill example_dates scenario_b =
   Inr (example_record (butlast scenario_b_classified)
          (no_milestones\<lparr>h_active := True, h_active_at := Some ''2019-03-05T00:00:00.000Z'',
             h_house_passage_result := Some ''pass'',
             h_house_passage_result_at := Some ''2019-04-09T00:00:00.000Z''\<rparr>)
          None (Some ''2019-06-20T00:00:00.000Z''))"
  by code_simp

lemma scenario_a_output:
  "transformGovInfoBill example_dates scenario_a =
   Inr (example_record [] (no_milestones\<lparr>h_active := True\<rparr>) None
          (Some ''2019-01-03T00:00:00.000Z''))"
  by code_simp

text \<open>
  The classifier on the four texts of scenario B, each with the status that the action
  before it would have produced: the statuses that a replay would stamp.
\<close>

lemma scenario_b_with_prior_status:
  "read_status (projr (parse_bill_action
      (classified_example ''2019-01-03'' referral_text plain_action)
      (Some ''INTRODUCED'') ''hr1-116'' None)) ''status'' = Some ''REFERRED''"
  "read_status (projr (parse_bill_action
      (classified_example ''2019-03-05'' report_text plain_action)
      (Some ''REFERRED'') ''hr1-116'' None)) ''status'' = Some ''REPORTED''"
  "read_status (projr (parse_bill_action
      (classified_example ''2019-04-09'' house_passage_text plain_action)
      (Some ''REPORTED'') ''hr1-116'' None)) ''status'' = Some ''PASS_OVER:HOUSE''"
  "read_status (projr (parse_bill_action
      (classified_example ''2019-06-20'' senate_passage_text plain_action)
      (Some ''PASS_OVER:HOUSE'') ''hr1-116'' None)) ''status'' = Some ''PASSED:BILL''"
  by code_simp+

section \<open>The record that \<open>transformGovInfoBill\<close> builds\<close>

text \<open>
  Claim C9. When the classified list of a bill is not empty, \<open>latest_status\<close> takes its
  last element away: the record's \<open>actions\<close> are the classified actions without the
  latest one, the history is computed from that shorter list, and the latest action
  shows only in the record's status (the status of that action) and status date (its
  time).
\<close>

theorem latest_action_only_in_status:
  assumes "transformGovInfoBill toISOString bill = Inr out"
  shows "\<exists>classified.
           actions_for toISOString (in_actions bill) (out_bill_id out)
             (current_title_for (out_titles out) ''official'') = Inr classified
           \<and> (classified \<noteq> [] \<longrightarrow>
                out_actions out = butlast classified
                \<and> out_history out = history_from_actions (butlast classified)
                \<and> out_status out = a_status (last classified)
                \<and> out_status_at out = Some (acted_at (last classified)))"
  using assms
  by (auto simp: transformGovInfoBill_def latest_status_def Let_def
      split: option.splits sum.splits list.splits)

theorem latest_action_only_in_status_witness:
  "scenario_b_classified \<noteq> []
   \<and> (\<exists>out. transformGovInfoBill example_dates scenario_b = Inr out
         \<and> out_actions out = butlast scenario_b_classified
         \<and> out_history out = history_from_actions (butlast scenario_b_classified)
         \<and> out_status out = a_status (last scenario_b_classified)
         \<and> out_status_at out = Some (acted_at (last scenario_b_classified)))"
proof -
  let ?out = "example_record (butlast scenario_b_classified)
          (no_milestones\<lparr>h_active := True, h_active_at := Some ''2019-03-05T00:00:00.000Z'',
             h_house_passage_result := Some ''pass'',
             h_house_passage_result_at := Some ''2019-04-09T00:00:00.000Z''\<rparr>)
          None (Some ''2019-06-20T00:00:00.000Z'')"
  have nonempty: "scenario_b_classified \<noteq> []"
    by (simp add: scenario_b_classified_def)
  have id: "out_bill_id ?out = ''hr1-116''"
    by (simp add: example_record_def)
  have title: "current_title_for (out_titles ?out) ''official'' = Some ''A bill to do something.''"
    by (simp add: example_record_def current_title_for_def last_where_def)
  from latest_action_only_in_status [OF scenario_b_output] obtain classified where
    c: "actions_for example_dates (in_actions scenario_b) (out_bill_id ?out)
          (current_title_for (out_titles ?out) ''official'') = Inr classified"
    and r: "classified \<noteq> [] \<longrightarrow>
          out_actions ?out = butlast classified
          \<and> out_history ?out = history_from_actions (butlast classified)
          \<and> out_status ?out = a_status (last classified)
          \<and> out_status_at ?out = Some (acted_at (last classified))"
    by blast
  from c have eq: "classified = scenario_b_classified"
    by (simp only: id title scenario_b_actions sum.inject)
  from r [unfolded eq] nonempty
  have "out_actions ?out = butlast scenario_b_classified
      \<and> out_history ?out = history_from_actions (butlast scenario_b_classified)
      \<and> out_status ?out = a_status (last scenario_b_classified)
      \<and> out_status_at ?out = Some (acted_at (last scenario_b_classified))"
    by (rule mp)
  with scenario_b_output
  have "\<exists>out. transformGovInfoBill example_dates scenario_b = Inr out
      \<and> out_actions out = butlast scenario_b_classified
      \<and> out_history out = history_from_actions (butlast scenario_b_classified)
      \<and> out_status out = a_status (last scenario_b_classified)
      \<and> out_status_at out = Some (acted_at (last scenario_b_classified))"
    by (intro exI [where x = "?out"] conjI) (elim conjE, assumption)+
  with nonempty show ?thesis
    by (rule conjI)
qed

text \<open>
  Claim C2, evaluated on scenario B. The four actions are classified as a referral, a
  report, a House vote and a Senate vote, none of them with a status; the record keeps
  the first three, its status is \<^verbatim>\<open>undefined\<close> and its status date is the time of
  the Senate passage.
\<close>

theorem scenario_b_final_status:
  "transformGovInfoBill example_dates scenario_b =
     Inr (example_record (butlast scenario_b_classified)
            (no_milestones\<lparr>h_active := True, h_active_at := Some ''2019-03-05T00:00:00.000Z'',
               h_house_passage_result := Some ''pass'',
               h_house_passage_result_at := Some ''2019-04-09T00:00:00.000Z''\<rparr>)
            None (Some ''2019-06-20T00:00:00.000Z''))
   \<and> map a_status scenario_b_classified = [None, None, None, None]
   \<and> map a_type scenario_b_classified = [''referral'', ''reported'', ''vote'', ''vote'']"
  by (simp add: scenario_b_output)
    (simp add: scenario_b_classified_def classified_example_def a_type_def plain_action_def)

text \<open>
  Claim C6, evaluated on scenario A. The introduction matches no rule and keeps the
  type \<^verbatim>\<open>action\<close>; \<open>latest_status\<close> takes it as the latest action, so the record's
  status is that action's status, which is \<^verbatim>\<open>undefined\<close>, the record has no actions
  left, and \<open>activation_from\<close> answers the empty list with an empty array, which
  counts as true: the history is active.
\<close>

theorem scenario_a_status_and_activity:
  "transformGovInfoBill example_dates scenario_a =
     Inr (example_record [] (no_milestones\<lparr>h_active := True\<rparr>) None
            (Some ''2019-01-03T00:00:00.000Z''))
   \<and> actions_for example_dates (in_actions scenario_a) ''hr1-116''
         (Some ''A bill to do something.'') =
       Inr [classified_example ''2019-01-03'' introduction_text plain_action]"
proof -
  have "actions_for example_dates (in_actions scenario_a) ''hr1-116''
         (Some ''A bill to do something.'') =
       Inr [classified_example ''2019-01-03'' introduction_text plain_action]"
    by code_simp
  with scenario_a_output show ?thesis
    by simp
qed

text \<open>
  Claim C5, evaluated. For the empty list the history is active, with no activation
  time. For the activation example the activation point is the action with the
  sponsor's introductory remarks, not the vote after it: its text has no quotation
  marks around the phrase, so the test of \<open>activation_from\<close> does not see a marker.
\<close>

theorem activation_scan_evaluated:
  "h_active (history_from_actions []) = True
   \<and> h_active_at (history_from_actions []) = None
   \<and> activation_from [] = EmptyArray
   \<and> regex_test True introductory_remarks_re remarks_text = False
   \<and> h_active (history_from_actions activation_example) = True
   \<and> h_active_at (history_from_actions activation_example) = Some ''2019-04-09T00:00:00.000Z''
   \<and> h_active (history_from_actions (take 2 activation_example)) = False"
  by code_simp

section \<open>The prior status is never threaded\<close>

lemma parsed_keys:
  "parse_bill_action action_dict prev bill_id title = Inr parsed \<Longrightarrow>
   parsed = [] \<or> (\<exists>a s. parsed = [(''action'', ActionValue a), (''status'', StatusValue s)])"
  by (auto simp: parse_bill_action_def split: sum.splits if_splits)

lemma no_stauts:
  "parse_bill_action action_dict prev bill_id title = Inr parsed \<Longrightarrow>
   read_status parsed ''stauts'' = None"
  by (drule parsed_keys) (auto simp: read_status_def)

lemma build_dict_unthreaded:
  "actions_for_build_dict toISOString bill_id title item closure =
   (case action_for toISOString item of
      Inl e \<Rightarrow> Inl e
    | Inr action_dict \<Rightarrow>
        (case split_bill_id bill_id of
           Inl e \<Rightarrow> Inl e
         | Inr ids \<Rightarrow>
             if regex_test True amendment_re (a_text action_dict) then Inr action_dict
             else
               (case classify (a_text action_dict) '''' bill_id (p_bill_type ids)
                       (or_default title '''') of
                  Inl e \<Rightarrow> Inl e
                | Inr l \<Rightarrow> Inr (action_dict\<lparr>a_info := l_action l\<rparr>))))"
  by (simp add: actions_for_build_dict_def parse_bill_action_def number_property_def
      or_default_def read_status_def read_action_def truthy_def split: sum.splits)

lemma action_for_no_status: "action_for toISOString item = Inr a \<Longrightarrow> a_status a = None"
  by (auto simp: action_for_def split: option.splits)

lemma build_dict_no_status:
  "actions_for_build_dict toISOString bill_id title item closure = Inr a \<Longrightarrow> a_status a = None"
  by (auto simp: build_dict_unthreaded dest: action_for_no_status split: sum.splits if_splits)

lemma map_indexed_all:
  "map_indexed f i xs = Inr ys \<Longrightarrow> (\<And>x j y. f x j = Inr y \<Longrightarrow> P y) \<Longrightarrow> \<forall>y\<in>set ys. P y"
  by (induction xs arbitrary: i ys) (auto split: sum.splits)

lemma actions_for_no_status:
  assumes "actions_for toISOString items bill_id title = Inr acts"
  shows "\<forall>a\<in>set acts. a_status a = None"
proof -
  from assms obtain kept where
    "map_indexed (actions_for_build_dict toISOString bill_id title) 0 kept = Inr acts"
    by (auto simp: actions_for_def split: sum.splits)
  then show ?thesis
    by (rule map_indexed_all) (rule build_dict_no_status)
qed

text \<open>
  Claim C3. Whatever the bill, the prior status that the callback of \<open>actions_for\<close>
  reads from its second argument is the empty text at every index (the argument is the
  index, a number, which has no such property, so the default applies): the result of the callback
  is the one that \<open>classify\<close> computes from the prior status \<open>''''\<close>, with no status
  written into the action. So no element of the list that \<open>actions_for\<close> returns has
  a status.
\<close>

theorem prior_status_never_advances:
  "(\<forall>closure. or_default (number_property closure ''prev_status'') '''' = '''')
   \<and> (\<forall>item closure.
      actions_for_build_dict toISOString bill_id title item closure =
      (case action_for toISOString item of
         Inl e \<Rightarrow> Inl e
       | Inr action_dict \<Rightarrow>
           (case split_bill_id bill_id of
              Inl e \<Rightarrow> Inl e
            | Inr ids \<Rightarrow>
                if regex_test True amendment_re (a_text action_dict) then Inr action_dict
                else
                  (case classify (a_text action_dict) '''' bill_id (p_bill_type ids)
                          (or_default title '''') of
                     Inl e \<Rightarrow> Inl e
                   | Inr l \<Rightarrow> Inr (action_dict\<lparr>a_info := l_action l\<rparr>)))))
   \<and> (\<forall>acts. actions_for toISOString items bill_id title = Inr acts \<longrightarrow>
         (\<forall>a\<in>set acts. a_status a = None))"
proof (intro conjI allI impI)
  fix closure
  show "or_default (number_property closure ''prev_status'') '''' = ''''"
    by (simp add: number_property_def or_default_def)
next
  fix item closure
  show "actions_for_build_dict toISOString bill_id title item closure =
      (case action_for toISOString item of
         Inl e \<Rightarrow> Inl e
       | Inr action_dict \<Rightarrow>
           (case split_bill_id bill_id of
              Inl e \<Rightarrow> Inl e
            | Inr ids \<Rightarrow>
                if regex_test True amendment_re (a_text action_dict) then Inr action_dict
                else
                  (case classify (a_text action_dict) '''' bill_id (p_bill_type ids)
                          (or_default title '''') of
                     Inl e \<Rightarrow> Inl e
                   | Inr l \<Rightarrow> Inr (action_dict\<lparr>a_info := l_action l\<rparr>))))"
    by (rule build_dict_unthreaded)
next
  fix acts
  assume "actions_for toISOString items bill_id title = Inr acts"
  then show "\<forall>a\<in>set acts. a_status a = None"
    by (rule actions_for_no_status)
qed

theorem prior_status_never_advances_witness:
  "actions_for example_dates (in_actions scenario_b) ''hr1-116''
     (Some ''A bill to do something.'') = Inr scenario_b_classified
   \<and> map a_status scenario_b_classified = [None, None, None, None]"
proof -
  from prior_status_never_advances
    [of example_dates "''hr1-116''" "Some ''A bill to do something.''" "in_actions scenario_b"]
    scenario_b_actions
  have "\<forall>a\<in>set scenario_b_classified. a_status a = None"
    by blast
  then have "map a_status scenario_b_classified = [None, None, None, None]"
    by (simp add: scenario_b_classified_def)
  with scenario_b_actions show ?thesis
    by (rule conjI)
qed

section \<open>Enactment by citation\<close>

lemma law_text_rules:
  "regex_test True amendment_re law_text = False"
  "regex_match True house_vote_re (replace_first law_text '', the Passed'' '', Passed'') = None"
  "regex_test True special_rule_re law_text = False"
  "regex_match True table_re law_text = None"
  "regex_match False senate_vote_re (replace_first law_text ''  '' '' '') = None"
  "regex_test True calendar_re law_text = False"
  "regex_match True reported_re law_text = None"
  "regex_match True reported_senate_re law_text = None"
  "regex_match True hearings_re law_text = None"
  "regex_match True discharged_re law_text = None"
  "regex_test True topresident_re law_text = False"
  "regex_test True signed_re law_text = False"
  "regex_test True pocket_veto_re law_text = False"
  "regex_test True veto_re law_text = False"
  "regex_test False archivist_re law_text = False"
  "regex_match True law_re law_text =
     Some [(0, ''Became Public Law No: 116-123.''), (2, ''116-123''), (1, ''Public'')]"
  "regex_test True referral_re law_text = False"
  by code_simp+

lemma law_text_pieces:
  "split ''116-123'' ''-'' = [''116'', ''123'']" "toLowerCase ''Public'' = ''public''"
  by code_simp+

lemma classify_law_text:
  "classify law_text p bill_id bt title =
   Inr \<lparr>l_action = plain_action\<lparr>i_type := ''enacted'', i_law := Some ''public'',
                       i_congress := Some ''116'', i_number := Some ''123''\<rparr>,
        l_status = (if p = ''PROV_KILL:VETO'' \<or> prefix ''VETOED:'' p
                    then Some ''ENACTED:VETO_OVERRIDE'' else None),
        l_roll = None\<rparr>"
  by (simp add: classify_def house_vote_def special_rule_def table_vote_def senate_vote_def
      calendar_def reported_def hearings_def discharged_def topresident_def signed_def
      vetoed_def ten_day_rule_def enacted_def referral_def law_text_rules law_text_pieces
      grp_def nth_opt_def startsWith_def plain_action_def)

lemma enacted_not_vetoed:
  "prefix ''ENACTED:'' p \<Longrightarrow> p \<noteq> ''PROV_KILL:VETO'' \<and> \<not> prefix ''VETOED:'' p"
  by (cases p) auto

text \<open>
  Claim C7. For a valid bill identifier, any title and any prior status, classifying
  the text \<open>law_text\<close> gives the type \<open>enacted\<close> and the law \<open>public\<close>, congress 116,
  number 123, and nothing else in the action. The status that the classifier returns
  is: none (no change) when the prior status starts with \<open>ENACTED:\<close>;
  \<open>ENACTED:VETO_OVERRIDE\<close> when the prior status is \<open>PROV_KILL:VETO\<close> or starts with
  \<open>VETOED:\<close>; and none (no change) for every other prior status.
\<close>

theorem public_law_citation:
  assumes "split_bill_id bill_id = Inr ids"
  shows "parse_bill_action (action_dict\<lparr>a_text := law_text\<rparr>) prev_status bill_id title =
           Inr [(''action'',
                 ActionValue (plain_action\<lparr>i_type := ''enacted'', i_law := Some ''public'',
                                i_congress := Some ''116'', i_number := Some ''123''\<rparr>)),
                (''status'',
                 StatusValue
                   (if or_default prev_status '''' = ''PROV_KILL:VETO''
                       \<or> prefix ''VETOED:'' (or_default prev_status '''')
                    then Some ''ENACTED:VETO_OVERRIDE'' else None))]
         \<and> (prefix ''ENACTED:'' (or_default prev_status '''') \<longrightarrow>
              parse_bill_action (action_dict\<lparr>a_text := law_text\<rparr>) prev_status bill_id title =
                Inr [(''action'',
                      ActionValue (plain_action\<lparr>i_type := ''enacted'', i_law := Some ''public'',
                                     i_congress := Some ''116'', i_number := Some ''123''\<rparr>)),
                     (''status'', StatusValue None)])"
proof -
  have parsed: "parse_bill_action (action_dict\<lparr>a_text := law_text\<rparr>) prev_status bill_id title =
           Inr [(''action'',
                 ActionValue (plain_action\<lparr>i_type := ''enacted'', i_law := Some ''public'',
                                i_congress := Some ''116'', i_number := Some ''123''\<rparr>)),
                (''status'',
                 StatusValue
                   (if or_default prev_status '''' = ''PROV_KILL:VETO''
                       \<or> prefix ''VETOED:'' (or_default prev_status '''')
                    then Some ''ENACTED:VETO_OVERRIDE'' else None))]"
    using assms by (simp add: parse_bill_action_def law_text_rules(1) classify_law_text)
  moreover have "parse_bill_action (action_dict\<lparr>a_text := law_text\<rparr>) prev_status bill_id title =
           Inr [(''action'',
                 ActionValue (plain_action\<lparr>i_type := ''enacted'', i_law := Some ''public'',
                                i_congress := Some ''116'', i_number := Some ''123''\<rparr>)),
                (''status'', StatusValue None)]"
    if "prefix ''ENACTED:'' (or_default prev_status '''')"
    using enacted_not_vetoed [OF that] by (simp add: parsed)
  ultimately show ?thesis
    by (intro conjI impI)
qed

theorem public_law_citation_witness:
  "split_bill_id ''hr1-116'' = Inr \<lparr>p_bill_number = ''1'', p_bill_type = ''hr'', p_congress = ''116''\<rparr>
   \<and> parse_bill_action (classified_example ''2019-06-20'' law_text plain_action)
        (Some ''PROV_KILL:VETO'') ''hr1-116'' None =
       Inr [(''action'',
             ActionValue (plain_action\<lparr>i_type := ''enacted'', i_law := Some ''public'',
                            i_congress := Some ''116'', i_number := Some ''123''\<rparr>)),
            (''status'', StatusValue (Some ''ENACTED:VETO_OVERRIDE''))]
   \<and> parse_bill_action (classified_example ''2019-06-20'' law_text plain_action)
        (Some ''ENACTED:SIGNED'') ''hr1-116'' None =
       Inr [(''action'',
             ActionValue (plain_action\<lparr>i_type := ''enacted'', i_law := Some ''public'',
                            i_congress := Some ''116'', i_number := Some ''123''\<rparr>)),
            (''status'', StatusValue None)]"
proof -
  have id: "split_bill_id ''hr1-116'' =
      Inr \<lparr>p_bill_number = ''1'', p_bill_type = ''hr'', p_congress = ''116''\<rparr>"
    by code_simp
  have same: "(classified_example ''2019-06-20'' law_text plain_action)\<lparr>a_text := law_text\<rparr> =
      classified_example ''2019-06-20'' law_text plain_action"
    by (simp add: classified_example_def)
  from public_law_citation [OF id, of "classified_example ''2019-06-20'' law_text plain_action"
      "Some ''PROV_KILL:VETO''" None]
    public_law_citation [OF id, of "classified_example ''2019-06-20'' law_text plain_action"
      "Some ''ENACTED:SIGNED''" None]
    id
  show ?thesis
    by (simp add: same or_default_def)
qed

section \<open>The title classifier\<close>

lemma index_of_found:
  "index_of s p = Some i \<Longrightarrow> prefix p (drop i s) \<and> i \<le> length s"
proof (induction s arbitrary: i)
  case Nil
  then show ?case by (simp split: if_splits)
next
  case (Cons c cs)
  then show ?case by (auto split: if_splits)
qed

lemma index_of_finds:
  "prefix p (drop i s) \<Longrightarrow> i \<le> length s \<Longrightarrow> index_of s p \<noteq> None"
proof (induction s arbitrary: i)
  case Nil
  then show ?case by simp
next
  case (Cons c cs)
  then show ?case by (cases i) auto
qed

lemma replace_first_trailing:
  assumes "index_of s p = None \<or> index_of s p = Some (length s - length p)"
  shows "replace_first s p '''' = strip_trailing p s"
  using assms
proof
  assume none: "index_of s p = None"
  have "\<not> suffix p s"
  proof
    assume "suffix p s"
    then obtain ys where "s = ys @ p"
      by (auto simp: suffix_def)
    then have "prefix p (drop (length ys) s)" and "length ys \<le> length s"
      by simp_all
    then show False
      using index_of_finds none by blast
  qed
  with none show ?thesis
    by (simp add: replace_first_def strip_trailing_def)
next
  assume some: "index_of s p = Some (length s - length p)"
  from index_of_found [OF this] have pre: "prefix p (drop (length s - length p) s)"
    by simp
  then have "length p \<le> length s - (length s - length p)"
    using prefix_length_le by fastforce
  then have le: "length p \<le> length s"
    by simp
  from pre obtain zs where zs: "drop (length s - length p) s = p @ zs"
    by (auto simp: prefix_def)
  then have "length (drop (length s - length p) s) = length p + length zs"
    by simp
  with le have "zs = []"
    by simp
  with zs have "drop (length s - length p) s = p"
    by simp
  then have "suffix p s"
    by (metis suffix_drop)
  with some le show ?thesis
    by (simp add: replace_first_def strip_trailing_def)
qed


lemma replace_first_colon:
  "colons s \<le> 1 \<Longrightarrow>
   (case index_of s '':'' of None \<Rightarrow> s | Some i \<Rightarrow> take i s @ drop (Suc i) s) = remove_colons s"
proof (induction s)
  case Nil
  show ?case by (simp add: remove_colons_def)
next
  case (Cons c cs)
  show ?case
  proof (cases "c = CHR '':''")
    case True
    with Cons.prems have "filter (\<lambda>x. x = CHR '':'') cs = []"
      by (simp add: colons_def)
    then have "\<forall>x\<in>set cs. x \<noteq> CHR '':''"
      by (simp add: filter_empty_conv)
    then have "filter (\<lambda>x. x \<noteq> CHR '':'') cs = cs"
      by (simp add: filter_id_conv)
    with True show ?thesis
      by (simp add: remove_colons_def)
  next
    case False
    with Cons.prems have "colons cs \<le> 1"
      by (simp add: colons_def)
    from Cons.IH [OF this] False show ?thesis
      by (simp add: remove_colons_def split: option.splits)
  qed
qed

lemma colons_strip_trailing: "colons (strip_trailing p s) \<le> colons s"
proof -
  have "colons (take n s) \<le> colons s" for n
  proof -
    have "colons s = colons (take n s) + colons (drop n s)"
      unfolding colons_def by (metis append_take_drop_id filter_append length_append)
    then show ?thesis by simp
  qed
  then show ?thesis
    by (simp add: strip_trailing_def)
qed

lemma title_state_code:
  "title_state q =
   (suffix portions_phrase q,
    toLowerCase (replace_first
      (if suffix portions_phrase q then replace_first q portions_phrase [] else q) '':'' []))"
  by (simp add: title_state_def endsWith_def Let_def)

lemma title_state_colon_free:
  assumes phrase: "phrase_only_final q" and colon: "colons q \<le> 1"
  shows "title_state q = colon_free_title_state q"
proof -
  have one: "(if suffix portions_phrase q then replace_first q portions_phrase [] else q) =
      strip_trailing portions_phrase q"
  proof (cases "suffix portions_phrase q")
    case True
    with phrase show ?thesis
      by (simp add: replace_first_trailing phrase_only_final_def)
  next
    case False
    then show ?thesis
      by (simp add: strip_trailing_def)
  qed
  have "colons (strip_trailing portions_phrase q) \<le> 1"
    using colons_strip_trailing [of portions_phrase q] colon by simp
  then have two: "replace_first (strip_trailing portions_phrase q) '':'' [] =
      remove_colons (strip_trailing portions_phrase q)"
    using replace_first_colon [of "strip_trailing portions_phrase q"]
    by (simp add: replace_first_def split: option.splits)
  show ?thesis
    by (simp only: title_state_code one two colon_free_title_state_def)
qed

lemma build_dict_split:
  assumes "ti_titleType item = Some label" and "title_splits label = [kind, qualifier]"
  shows "titles_for_build_dict item =
         (case title_kind kind of
            Inl e \<Rightarrow> Inl e
          | Inr k \<Rightarrow>
              Inr \<lparr>t_title = ti_title item,
                   t_is_for_portion = fst (title_state qualifier),
                   t_as = Some (snd (title_state qualifier)),
                   t_type = k\<rparr>)"
  using assms by (simp add: titles_for_build_dict_def)

lemma unknown_kind:
  assumes "\<not> includes_str kind ''Popular Title''" "\<not> includes_str kind ''Short Title''"
    "\<not> includes_str kind ''Official Title''" "\<not> includes_str kind ''Display Title''"
    "kind \<noteq> ''Non-bill-report''"
  shows "title_kind kind = Inl (UnknownTitleType kind)"
  using assms by (simp add: title_kind_def)

lemma title_examples:
  "titles_for_build_dict \<lparr>ti_titleType = Some ''Short Titles as Introduced'', ti_title = t\<rparr> =
     Inr \<lparr>t_title = t, t_is_for_portion = False, t_as = Some ''introduced'', t_type = ''short''\<rparr>"
  "titles_for_build_dict
     \<lparr>ti_titleType = Some ''Official Title as Introduced for portions of this bill'',
      ti_title = t\<rparr> =
     Inr \<lparr>t_title = t, t_is_for_portion = True, t_as = Some ''introduced'',
          t_type = ''official''\<rparr>"
proof -
  have a: "title_splits ''Short Titles as Introduced'' = [''Short Titles'', ''Introduced'']"
    and b: "title_kind ''Short Titles'' = Inr ''short''"
    and c: "title_state ''Introduced'' = (False, ''introduced'')"
    and d: "title_splits ''Official Title as Introduced for portions of this bill'' =
        [''Official Title'', ''Introduced for portions of this bill'']"
    and e: "title_kind ''Official Title'' = Inr ''official''"
    and f: "title_state ''Introduced for portions of this bill'' = (True, ''introduced'')"
    by code_simp+
  show "titles_for_build_dict \<lparr>ti_titleType = Some ''Short Titles as Introduced'', ti_title = t\<rparr> =
     Inr \<lparr>t_title = t, t_is_for_portion = False, t_as = Some ''introduced'', t_type = ''short''\<rparr>"
    by (simp add: build_dict_split [OF _ a] b c)
  show "titles_for_build_dict
     \<lparr>ti_titleType = Some ''Official Title as Introduced for portions of this bill'',
      ti_title = t\<rparr> =
     Inr \<lparr>t_title = t, t_is_for_portion = True, t_as = Some ''introduced'',
          t_type = ''official''\<rparr>"
    by (simp add: build_dict_split [OF _ d] e f)
qed

lemma build_dict_kind:
  assumes "ti_titleType item = Some label" and "title_kind (label_kind label) = Inl e"
  shows "titles_for_build_dict item = Inl e"
  using assms
  by (simp add: titles_for_build_dict_def label_kind_def split: list.splits)

text \<open>
  A qualifier with two colons: the code removes the first and keeps the second.
\<close>

lemma two_colons_example:
  "title_state ''Introduced: Title I:'' = (False, ''introduced title i:'')"
  "colons ''Introduced: Title I:'' = 2"
  by code_simp+

text \<open>
  Claim C8, as amended. The two labels of the specification are classified as it says.
  For a label that splits into a kind and a qualifier, where the phrase
  \<open>portions_phrase\<close> occurs nowhere before its final occurrence and the qualifier has
  at most one colon: the flag is set when the qualifier ends with the phrase, and then
  that suffix is stripped; the colon is removed wherever it stands; and the rest is
  lower-cased into the field \<open>as\<close>. A label whose kind contains none of the four kind
  texts and is not \<open>Non-bill-report\<close> fails with the unknown-title-type error.
\<close>

theorem title_classifier_qualifier:
  "titles_for_build_dict \<lparr>ti_titleType = Some ''Short Titles as Introduced'', ti_title = t\<rparr> =
     Inr \<lparr>t_title = t, t_is_for_portion = False, t_as = Some ''introduced'', t_type = ''short''\<rparr>
   \<and> titles_for_build_dict
       \<lparr>ti_titleType = Some ''Official Title as Introduced for portions of this bill'',
        ti_title = t\<rparr> =
     Inr \<lparr>t_title = t, t_is_for_portion = True, t_as = Some ''introduced'',
          t_type = ''official''\<rparr>
   \<and> (ti_titleType item = Some label \<and> title_splits label = [kind, qualifier]
        \<and> phrase_only_final qualifier \<and> colons qualifier \<le> 1 \<longrightarrow>
        titles_for_build_dict item =
          (case title_kind kind of
             Inl e \<Rightarrow> Inl e
           | Inr k \<Rightarrow>
               Inr \<lparr>t_title = ti_title item,
                    t_is_for_portion = suffix portions_phrase qualifier,
                    t_as = Some (toLowerCase
                             (remove_colons (strip_trailing portions_phrase qualifier))),
                    t_type = k\<rparr>))
   \<and> (ti_titleType item = Some label
        \<and> \<not> includes_str (label_kind label) ''Popular Title''
        \<and> \<not> includes_str (label_kind label) ''Short Title''
        \<and> \<not> includes_str (label_kind label) ''Official Title''
        \<and> \<not> includes_str (label_kind label) ''Display Title''
        \<and> label_kind label \<noteq> ''Non-bill-report'' \<longrightarrow>
        titles_for_build_dict item = Inl (UnknownTitleType (label_kind label)))"
proof (intro conjI impI)
  show "titles_for_build_dict \<lparr>ti_titleType = Some ''Short Titles as Introduced'', ti_title = t\<rparr> =
     Inr \<lparr>t_title = t, t_is_for_portion = False, t_as = Some ''introduced'', t_type = ''short''\<rparr>"
    by (rule title_examples(1))
next
  show "titles_for_build_dict
       \<lparr>ti_titleType = Some ''Official Title as Introduced for portions of this bill'',
        ti_title = t\<rparr> =
     Inr \<lparr>t_title = t, t_is_for_portion = True, t_as = Some ''introduced'',
          t_type = ''official''\<rparr>"
    by (rule title_examples(2))
next
  assume a: "ti_titleType item = Some label \<and> title_splits label = [kind, qualifier]
        \<and> phrase_only_final qualifier \<and> colons qualifier \<le> 1"
  then have "title_state qualifier = colon_free_title_state qualifier"
    by (intro title_state_colon_free) simp_all
  then have state: "fst (title_state qualifier) = suffix portions_phrase qualifier"
    "snd (title_state qualifier) =
       toLowerCase (remove_colons (strip_trailing portions_phrase qualifier))"
    by (simp_all add: colon_free_title_state_def)
  from a have "titles_for_build_dict item =
         (case title_kind kind of
            Inl e \<Rightarrow> Inl e
          | Inr k \<Rightarrow>
              Inr \<lparr>t_title = ti_title item,
                   t_is_for_portion = fst (title_state qualifier),
                   t_as = Some (snd (title_state qualifier)),
                   t_type = k\<rparr>)"
    by (intro build_dict_split [of item label]) simp_all
  then show "titles_for_build_dict item =
          (case title_kind kind of
             Inl e \<Rightarrow> Inl e
           | Inr k \<Rightarrow>
               Inr \<lparr>t_title = ti_title item,
                    t_is_for_portion = suffix portions_phrase qualifier,
                    t_as = Some (toLowerCase
                             (remove_colons (strip_trailing portions_phrase qualifier))),
                    t_type = k\<rparr>)"
    unfolding state .
next
  assume a: "ti_titleType item = Some label
        \<and> \<not> includes_str (label_kind label) ''Popular Title''
        \<and> \<not> includes_str (label_kind label) ''Short Title''
        \<and> \<not> includes_str (label_kind label) ''Official Title''
        \<and> \<not> includes_str (label_kind label) ''Display Title''
        \<and> label_kind label \<noteq> ''Non-bill-report''"
  then have "title_kind (label_kind label) = Inl (UnknownTitleType (label_kind label))"
    by (intro unknown_kind) simp_all
  with a show "titles_for_build_dict item = Inl (UnknownTitleType (label_kind label))"
    by (intro build_dict_kind [of item label]) simp_all
qed

theorem title_classifier_qualifier_witness:
  "title_splits conference_label =
     [''Short Titles'', ''Conference report for portions of this bill'']
   \<and> titles_for_build_dict \<lparr>ti_titleType = Some conference_label, ti_title = None\<rparr> =
       Inr \<lparr>t_title = None, t_is_for_portion = True, t_as = Some ''conference report'',
            t_type = ''short''\<rparr>
   \<and> titles_for_build_dict
       \<lparr>ti_titleType = Some ''Official Titles as Amended by House:'', ti_title = None\<rparr> =
       Inr \<lparr>t_title = None, t_is_for_portion = False, t_as = Some ''amended by house'',
            t_type = ''official''\<rparr>
   \<and> label_kind ''Other Titles as Introduced'' = ''Other Titles''
   \<and> titles_for_build_dict \<lparr>ti_titleType = Some ''Other Titles as Introduced'', ti_title = None\<rparr> =
       Inl (UnknownTitleType ''Other Titles'')"
proof -
  let ?q = "''Conference report for portions of this bill''"
  let ?h = "''Amended by House:''"
  have splits: "title_splits conference_label = [''Short Titles'', ?q]"
    and kind: "title_kind ''Short Titles'' = Inr ''short''"
    and ends: "suffix portions_phrase ?q"
    and once: "phrase_only_final ?q" "colons ?q \<le> 1"
    and lowered: "toLowerCase (remove_colons (strip_trailing portions_phrase ?q)) =
        ''conference report''"
    and splits_h: "title_splits ''Official Titles as Amended by House:'' =
        [''Official Titles'', ?h]"
    and kind_h: "title_kind ''Official Titles'' = Inr ''official''"
    and ends_h: "\<not> suffix portions_phrase ?h"
    and once_h: "phrase_only_final ?h" "colons ?h \<le> 1"
    and lowered_h: "toLowerCase (remove_colons (strip_trailing portions_phrase ?h)) =
        ''amended by house''"
    and other: "label_kind ''Other Titles as Introduced'' = ''Other Titles''"
    and none: "\<not> includes_str ''Other Titles'' ''Popular Title''"
      "\<not> includes_str ''Other Titles'' ''Short Title''"
      "\<not> includes_str ''Other Titles'' ''Official Title''"
      "\<not> includes_str ''Other Titles'' ''Display Title''"
      "''Other Titles'' \<noteq> ''Non-bill-report''"
    by code_simp+
  note general = title_classifier_qualifier
  from general [of _ "\<lparr>ti_titleType = Some conference_label, ti_title = None\<rparr>"
      conference_label "''Short Titles''" ?q] splits kind ends once lowered
  have one: "titles_for_build_dict \<lparr>ti_titleType = Some conference_label, ti_title = None\<rparr> =
       Inr \<lparr>t_title = None, t_is_for_portion = True, t_as = Some ''conference report'',
            t_type = ''short''\<rparr>"
    by simp
  from general [of _
      "\<lparr>ti_titleType = Some ''Official Titles as Amended by House:'', ti_title = None\<rparr>"
      "''Official Titles as Amended by House:''" "''Official Titles''" ?h]
    splits_h kind_h ends_h once_h lowered_h
  have colon: "titles_for_build_dict
       \<lparr>ti_titleType = Some ''Official Titles as Amended by House:'', ti_title = None\<rparr> =
       Inr \<lparr>t_title = None, t_is_for_portion = False, t_as = Some ''amended by house'',
            t_type = ''official''\<rparr>"
    by simp
  from general [of _ "\<lparr>ti_titleType = Some ''Other Titles as Introduced'', ti_title = None\<rparr>"
      "''Other Titles as Introduced''"] other none
  have two: "titles_for_build_dict
        \<lparr>ti_titleType = Some ''Other Titles as Introduced'', ti_title = None\<rparr> =
       Inl (UnknownTitleType ''Other Titles'')"
    by simp
  from splits one colon other two show ?thesis
    by (intro conjI)
qed

text \<open>
  The claim as it is worded strips a colon only at the end of the qualifier. On a
  qualifier with one colon that is not at its end the code removes the colon, and the
  wording keeps it.
\<close>

theorem inner_colon_counterexample:
  "title_splits ''Short Titles as Introduced: Title I'' =
     [''Short Titles'', ''Introduced: Title I'']
   \<and> titles_for_build_dict colon_example =
       Inr \<lparr>t_title = Some ''Example Act'', t_is_for_portion = False,
            t_as = Some ''introduced title i'', t_type = ''short''\<rparr>
   \<and> spec_title_state ''Introduced: Title I'' = (False, ''introduced: title i'')
   \<and> t_as (projr (titles_for_build_dict colon_example)) \<noteq>
       Some (snd (spec_title_state ''Introduced: Title I''))"
proof -
  have code: "titles_for_build_dict colon_example =
       Inr \<lparr>t_title = Some ''Example Act'', t_is_for_portion = False,
            t_as = Some ''introduced title i'', t_type = ''short''\<rparr>"
    by code_simp
  have spec: "spec_title_state ''Introduced: Title I'' = (False, ''introduced: title i'')"
    by code_simp
  have splits: "title_splits ''Short Titles as Introduced: Title I'' =
     [''Short Titles'', ''Introduced: Title I'']"
    by code_simp
  have "''introduced title i'' \<noteq> ''introduced: title i''"
    by simp
  then have "t_as (projr (titles_for_build_dict colon_example)) \<noteq>
       Some (snd (spec_title_state ''Introduced: Title I''))"
    by (simp add: code spec)
  with splits code spec show ?thesis
    by (intro conjI)
qed

section \<open>The filter of duplicate actions\<close>









lemma same_text_compares:
  assumes "item_text b = item_text x"
  shows "suffix (comparison_text b) (comparison_text x)"
    and "suffix (stripped_text b) (stripped_text x)"
  using assms by (simp_all add: comparison_text_def stripped_text_def)



text \<open>
  On the second example the code keeps both actions: the copy has two spaces more than
  the first space, so the comparison of the code fails where the comparison of the
  stripped texts succeeds.
\<close>

lemma first_space_example:
  "kept_actions example_dates [read_twice_first, read_twice_copy] =
     Inr [read_twice_copy, read_twice_first]"
  "baseline_dropped [read_twice_first, read_twice_copy] 1"
  "\<not> comparison_unaffected [read_twice_first, read_twice_copy]"
  by code_simp+




end
